theory Spec2Isabelle
  imports Main "HOL-Library.List_Lexorder" "HOL-Library.Char_ord"
begin

section \<open>Python strings and the string operations the scripts use\<close>

text \<open>
  A Python \<open>str\<close> is a sequence of Unicode code points. Where a script decodes
  percent escapes (which can produce any code point) the model uses \<open>ustr\<close>, a list
  of code points; \<open>u\<close> reads an ASCII literal as such a list. File names, prompt
  answers and JSON keys are modelled as \<open>string\<close>.
\<close>

type_synonym ustr = "nat list"

definition u :: "string \<Rightarrow> ustr" where
  "u s = map of_char s"

text \<open>\<open>s.startswith(p)\<close> and \<open>p in s\<close> (substring test).\<close>

definition startswith :: "'a list \<Rightarrow> 'a list \<Rightarrow> bool" where
  "startswith p s = (take (length p) s = p)"

fun contains :: "'a list \<Rightarrow> 'a list \<Rightarrow> bool" where
  "contains p [] = (p = [])"
| "contains p (c # cs) = (startswith p (c # cs) \<or> contains p cs)"

text \<open>
  \<open>split_first sep s\<close> cuts \<open>s\<close> at the first occurrence of the non-empty
  separator: the text before it and the text after it, or \<open>None\<close> when \<open>sep\<close>
  does not occur.
\<close>

fun split_first :: "'a list \<Rightarrow> 'a list \<Rightarrow> ('a list \<times> 'a list) option" where
  "split_first sep [] = None"
| "split_first sep (c # cs) =
     (if startswith sep (c # cs) then Some ([], drop (length sep) (c # cs))
      else (case split_first sep cs of
              None \<Rightarrow> None
            | Some (a, b) \<Rightarrow> Some (c # a, b)))"

text \<open>
  \<open>s.split(sep, n)\<close>: at most \<open>n\<close> cuts, so at most \<open>n + 1\<close> pieces. Python's
  \<open>s.split(sep)\<close> without a limit is \<open>split_all\<close>: every cut consumes at least one
  character of a non-empty separator, so \<open>length s\<close> cuts are never all used.
\<close>

fun splitn :: "nat \<Rightarrow> 'a list \<Rightarrow> 'a list \<Rightarrow> 'a list list" where
  "splitn 0 sep s = [s]"
| "splitn (Suc n) sep s =
     (case split_first sep s of
        None \<Rightarrow> [s]
      | Some (a, b) \<Rightarrow> a # splitn n sep b)"

definition split_all :: "'a list \<Rightarrow> 'a list \<Rightarrow> 'a list list" where
  "split_all sep s = splitn (length s) sep s"

text \<open>\<open>sep.join(parts)\<close>.\<close>

fun join :: "'a list \<Rightarrow> 'a list list \<Rightarrow> 'a list" where
  "join sep [] = []"
| "join sep [p] = p"
| "join sep (p # q # ps) = p @ sep @ join sep (q # ps)"

section \<open>The remote file browser: \<open>sharepoint-access.py\<close>\<close>

subsection \<open>\<open>urllib.parse.unquote\<close>\<close>

text \<open>
  \<open>unquote\<close> returns a string without \<open>%\<close> as it is. Otherwise every maximal run
  of ASCII characters is turned into bytes, \<open>%XX\<close> with two hexadecimal digits
  becoming the byte \<open>XX\<close> (\<open>unquote_to_bytes\<close>), and the bytes are decoded as UTF-8
  with \<open>errors='replace'\<close>; characters outside ASCII are passed through.
\<close>

definition hexval :: "nat \<Rightarrow> nat option" where
  "hexval c =
     (if 48 \<le> c \<and> c \<le> 57 then Some (c - 48)
      else if 65 \<le> c \<and> c \<le> 70 then Some (c - 55)
      else if 97 \<le> c \<and> c \<le> 102 then Some (c - 87)
      else None)"

fun unquote_to_bytes :: "ustr \<Rightarrow> nat list" where
  "unquote_to_bytes [] = []"
| "unquote_to_bytes [c] = [c]"
| "unquote_to_bytes [c, a] = c # unquote_to_bytes [a]"
| "unquote_to_bytes (c # a # b # cs) =
     (if c = 37 then
        (case (hexval a, hexval b) of
           (Some x, Some y) \<Rightarrow> (16 * x + y) # unquote_to_bytes cs
         | _ \<Rightarrow> c # unquote_to_bytes (a # b # cs))
      else c # unquote_to_bytes (a # b # cs))"

definition cont :: "nat \<Rightarrow> bool" where
  "cont b = (128 \<le> b \<and> b \<le> 191)"

text \<open>
  The range the second byte of a sequence may have, by lead byte (the UTF-8 table of the
  Unicode standard); \<open>None\<close> for a byte that cannot start a sequence.
\<close>

definition second_range :: "nat \<Rightarrow> (nat \<times> nat) option" where
  "second_range b =
     (if 194 \<le> b \<and> b \<le> 223 then Some (128, 191)
      else if b = 224 then Some (160, 191)
      else if b = 237 then Some (128, 159)
      else if 225 \<le> b \<and> b \<le> 239 then Some (128, 191)
      else if b = 240 then Some (144, 191)
      else if b = 244 then Some (128, 143)
      else if 241 \<le> b \<and> b \<le> 243 then Some (128, 191)
      else None)"

text \<open>
  \<open>bytes.decode('utf-8', 'replace')\<close>: a well-formed sequence gives its code point;
  an ill-formed one gives U+FFFD (65533) for its longest prefix that starts a
  well-formed sequence (one byte when there is none), and decoding goes on after it.
\<close>

fun utf8_decode :: "nat list \<Rightarrow> ustr" where
  "utf8_decode [] = []"
| "utf8_decode (b # bs) =
     (if b < 128 then b # utf8_decode bs
      else (case second_range b of
        None \<Rightarrow> 65533 # utf8_decode bs
      | Some (lo, hi) \<Rightarrow>
          (case bs of
             [] \<Rightarrow> [65533]
           | c1 # r1 \<Rightarrow>
               if \<not> (lo \<le> c1 \<and> c1 \<le> hi) then 65533 # utf8_decode bs
               else if b < 224 then ((b - 192) * 64 + (c1 - 128)) # utf8_decode r1
               else (case r1 of
                  [] \<Rightarrow> [65533]
                | c2 # r2 \<Rightarrow>
                    if \<not> cont c2 then 65533 # utf8_decode r1
                    else if b < 240 then
                      ((b - 224) * 4096 + (c1 - 128) * 64 + (c2 - 128)) # utf8_decode r2
                    else (case r2 of
                       [] \<Rightarrow> [65533]
                     | c3 # r3 \<Rightarrow>
                         if \<not> cont c3 then 65533 # utf8_decode r2
                         else ((b - 240) * 262144 + (c1 - 128) * 4096
                               + (c2 - 128) * 64 + (c3 - 128)) # utf8_decode r3)))))"

text \<open>
  The loop over the runs: \<open>run\<close> is the ASCII run read so far, decoded when a
  character outside ASCII or the end of the string closes it.
\<close>

fun unquote_runs :: "ustr \<Rightarrow> ustr \<Rightarrow> ustr" where
  "unquote_runs run [] = utf8_decode (unquote_to_bytes run)"
| "unquote_runs run (c # cs) =
     (if c < 128 then unquote_runs (run @ [c]) cs
      else utf8_decode (unquote_to_bytes run) @ c # unquote_runs [] cs)"

definition unquote :: "ustr \<Rightarrow> ustr" where
  "unquote s = (if 37 \<notin> set s then s else unquote_runs [] s)"

subsection \<open>\<open>urllib.parse.urlparse\<close>\<close>

datatype exn =
  ValueError | FileNotFoundError | EOFError | TypeError | AttributeError | KeyError

text \<open>
  \<open>urlsplit\<close> raises \<open>ValueError\<close> for a network location whose square brackets
  do not pair up. Two further checks of the library need tables that are not part of
  this repository: the validation of a bracketed host (\<open>ipaddress\<close>) and the NFKC
  normalisation of a non-ASCII network location (\<open>unicodedata\<close>). Their verdicts are
  parameters of the model; the library consults the first only when both brackets
  occur, the second only when the network location is not ASCII.
\<close>

record hostlib =
  bracketed_host_ok :: "ustr \<Rightarrow> bool"
  nfkc_ok :: "ustr \<Rightarrow> bool"

record parsed =
  scheme :: ustr
  netloc :: ustr
  path :: ustr
  params :: ustr
  query :: ustr
  fragment :: ustr

definition ascii_alpha :: "nat \<Rightarrow> bool" where
  "ascii_alpha c = ((65 \<le> c \<and> c \<le> 90) \<or> (97 \<le> c \<and> c \<le> 122))"

definition scheme_char :: "nat \<Rightarrow> bool" where
  "scheme_char c = (ascii_alpha c \<or> (48 \<le> c \<and> c \<le> 57) \<or> c = 43 \<or> c = 45 \<or> c = 46)"

definition ascii_lower :: "nat \<Rightarrow> nat" where
  "ascii_lower c = (if 65 \<le> c \<and> c \<le> 90 then c + 32 else c)"

text \<open>
  \<open>url.lstrip(_WHATWG_C0_CONTROL_OR_SPACE)\<close>, then tab, carriage return and newline
  are removed wherever they stand.
\<close>

definition clean_url :: "ustr \<Rightarrow> ustr" where
  "clean_url url = filter (\<lambda>c. c \<noteq> 9 \<and> c \<noteq> 13 \<and> c \<noteq> 10) (dropWhile (\<lambda>c. c \<le> 32) url)"

text \<open>
  The scheme: the text before the first colon, when it is a letter followed by scheme
  characters.
\<close>

definition split_scheme :: "ustr \<Rightarrow> ustr \<times> ustr" where
  "split_scheme url =
     (case split_first [58] url of
        None \<Rightarrow> ([], url)
      | Some (a, b) \<Rightarrow>
          if a \<noteq> [] \<and> ascii_alpha (hd a) \<and> list_all scheme_char a
          then (map ascii_lower a, b) else ([], url))"

text \<open>\<open>_splitnetloc(url, 2)\<close>: after the two slashes, up to the first of \<open>/ ? #\<close>.\<close>

definition netloc_delim :: "nat \<Rightarrow> bool" where
  "netloc_delim c = (c = 47 \<or> c = 63 \<or> c = 35)"

definition splitnetloc :: "ustr \<Rightarrow> ustr \<times> ustr" where
  "splitnetloc url =
     (takeWhile (\<lambda>c. \<not> netloc_delim c) (drop 2 url),
      dropWhile (\<lambda>c. \<not> netloc_delim c) (drop 2 url))"

definition netloc_ok :: "hostlib \<Rightarrow> ustr \<Rightarrow> bool" where
  "netloc_ok L n =
     (if 91 \<in> set n \<and> 93 \<notin> set n then False
      else if 93 \<in> set n \<and> 91 \<notin> set n then False
      else if 91 \<in> set n \<and> 93 \<in> set n \<and> \<not> bracketed_host_ok L n then False
      else if n = [] \<or> list_all (\<lambda>c. c < 128) n then True
      else nfkc_ok L n)"

definition urlsplit :: "hostlib \<Rightarrow> ustr \<Rightarrow> exn + parsed" where
  "urlsplit L url0 =
     (let (sch, url1) = split_scheme (clean_url url0);
          (nl, url2) = (if take 2 url1 = [47, 47] then splitnetloc url1 else ([], url1));
          (url3, frag) = (case split_first [35] url2 of None \<Rightarrow> (url2, []) | Some ab \<Rightarrow> ab);
          (url4, qry) = (case split_first [63] url3 of None \<Rightarrow> (url3, []) | Some ab \<Rightarrow> ab)
      in if netloc_ok L nl
         then Inr \<lparr>scheme = sch, netloc = nl, path = url4, params = [], query = qry,
                   fragment = frag\<rparr>
         else Inl ValueError)"

definition uses_params :: "ustr list" where
  "uses_params = map u [[], ''ftp'', ''hdl'', ''prospero'', ''http'', ''imap'', ''https'',
     ''shttp'', ''rtsp'', ''rtsps'', ''rtspu'', ''sip'', ''sips'', ''mms'', ''sftp'', ''tel'']"

text \<open>
  \<open>_splitparams\<close>: the parameters start at the first semicolon of the last path
  segment. (Without any semicolon and without a slash Python's \<open>find\<close> gives -1 and
  the slices are \<open>url[:-1]\<close> and \<open>url\<close>; \<open>urlparse\<close> never calls it so.)
\<close>

definition splitparams :: "ustr \<Rightarrow> ustr \<times> ustr" where
  "splitparams url =
     (if 47 \<in> set url then
        (let seg = takeWhile (\<lambda>c. c \<noteq> 47) (rev url);
             k = length url - length seg - 1
         in case split_first [59] (drop k url) of
              None \<Rightarrow> (url, [])
            | Some (a, b) \<Rightarrow> (take k url @ a, b))
      else (case split_first [59] url of
              None \<Rightarrow> (butlast url, url)
            | Some (a, b) \<Rightarrow> (a, b)))"

definition urlparse :: "hostlib \<Rightarrow> ustr \<Rightarrow> exn + parsed" where
  "urlparse L url =
     (case urlsplit L url of
        Inl e \<Rightarrow> Inl e
      | Inr r \<Rightarrow>
          if scheme r \<in> set uses_params \<and> 59 \<in> set (path r)
          then Inr (r\<lparr>path := fst (splitparams (path r)),
                       params := snd (splitparams (path r))\<rparr>)
          else Inr r)"

subsection \<open>\<open>SharePointAccess._parse_url\<close>\<close>

text \<open>The path-segment strategy: the site is the segment after the first \<open>/sites/\<close>.\<close>

definition path_strategy :: "ustr \<Rightarrow> ustr \<times> ustr" where
  "path_strategy full_path =
     (if contains (u ''/sites/'') full_path then
        (let parts = splitn 1 (u ''/sites/'') full_path in
         if length parts > 1 then
           (let site_parts = splitn 1 (u ''/'') (parts ! 1) in
            (u ''/sites/'' @ site_parts ! 0,
             if length site_parts > 1 then u ''/'' @ site_parts ! 1 else []))
         else ([], full_path))
      else ([], full_path))"

text \<open>
  The value read as the \<open>id\<close> parameter: the text after the first \<open>id=\<close> anywhere
  in the URL, up to the next \<open>id=\<close> and the next \<open>&\<close>, percent-decoded.
\<close>

definition id_decoded :: "ustr \<Rightarrow> ustr option" where
  "id_decoded url =
     (if contains (u ''id='') url
      then Some (unquote (hd (split_all (u ''&'') (split_all (u ''id='') url ! 1))))
      else None)"

text \<open>
  The \<open>id\<close> strategy: what the decoded value gives for site path and item path, or
  \<open>None\<close> when the code leaves the result of the path-segment strategy in place.
\<close>

definition id_strategy :: "ustr \<Rightarrow> (ustr \<times> ustr) option" where
  "id_strategy d =
     (if startswith (u ''/sites/'') d then
        (let id_parts = splitn 4 (u ''/'') d in
         if length id_parts \<ge> 4 then
           Some (u ''/'' @ id_parts ! 1 @ u ''/'' @ id_parts ! 2,
                 if length id_parts > 3 then u ''/'' @ join (u ''/'') (drop 3 id_parts)
                 else [])
         else None)
      else None)"

definition parse_url :: "hostlib \<Rightarrow> ustr \<Rightarrow> exn + (ustr \<times> ustr \<times> ustr)" where
  "parse_url L url =
     (case urlparse L url of
        Inl e \<Rightarrow> Inl e
      | Inr p \<Rightarrow>
          (let hostname = netloc p;
               (site_path, item_path) = path_strategy (unquote (path p))
           in case id_decoded url of
                None \<Rightarrow> Inr (hostname, site_path, item_path)
              | Some d \<Rightarrow>
                  (case id_strategy d of
                     None \<Rightarrow> Inr (hostname, site_path, item_path)
                   | Some (site_path', item_path') \<Rightarrow>
                       Inr (hostname, site_path', item_path'))))"

text \<open>A library whose two table-driven checks accept every host.\<close>

definition lenient :: hostlib where
  "lenient = \<lparr>bracketed_host_ok = (\<lambda>n. True), nfkc_ok = (\<lambda>n. True)\<rparr>"

section \<open>Conventions shared by the command-line tools\<close>

text \<open>
  A run of a tool ends in one of three ways: it returns, it calls \<open>sys.exit\<close> with a
  status, or an exception escapes. Every function that touches the outside world takes
  the world and returns it with its result.
\<close>

datatype 'a res = Ok 'a | Exit nat | Raise exn

definition and_then :: "'a res \<times> 's \<Rightarrow> ('a \<Rightarrow> 's \<Rightarrow> 'b res \<times> 's) \<Rightarrow> 'b res \<times> 's" where
  "and_then m f =
     (case m of
        (Ok x, s) \<Rightarrow> f x s
      | (Exit n, s) \<Rightarrow> (Exit n, s)
      | (Raise e, s) \<Rightarrow> (Raise e, s))"


text \<open>
  \<open>str.strip()\<close> removes Python's whitespace at both ends; for characters below 256
  these are tab to carriage return, the separators 28 to 31, space, NEL (133) and the
  no-break space (160). \<open>str.lower()\<close> on such characters is the ASCII and Latin-1
  mapping.
\<close>

definition py_space :: "char \<Rightarrow> bool" where
  "py_space c =
     (let n = (of_char c :: nat)
      in (9 \<le> n \<and> n \<le> 13) \<or> (28 \<le> n \<and> n \<le> 32) \<or> n = 133 \<or> n = 160)"

definition strip :: "string \<Rightarrow> string" where
  "strip s = rev (dropWhile py_space (rev (dropWhile py_space s)))"

definition lower_char :: "char \<Rightarrow> char" where
  "lower_char c =
     (let n = (of_char c :: nat)
      in if (65 \<le> n \<and> n \<le> 90) \<or> (192 \<le> n \<and> n \<le> 222 \<and> n \<noteq> 215)
         then char_of (n + 32) else c)"

definition lower :: "string \<Rightarrow> string" where
  "lower s = map lower_char s"

text \<open>\<open>str(n)\<close> for a natural number and for an integer.\<close>

function str_nat :: "nat \<Rightarrow> string" where
  "str_nat n =
     (if n < 10 then [''0123456789'' ! n]
      else str_nat (n div 10) @ [''0123456789'' ! (n mod 10)])"
  by pat_completeness auto
termination
  by (relation "measure id") auto

definition str_int :: "int \<Rightarrow> string" where
  "str_int i = (if i < 0 then ''-'' @ str_nat (nat (- i)) else str_nat (nat i))"

text \<open>
  Paths are lists of components (\<open>pathlib\<close> keeps them so); \<open>render\<close> is \<open>str(path)\<close>
  without the leading slash of an absolute path. Directories are not modelled: a
  \<open>mkdir(parents=True, exist_ok=True)\<close> is no step of the model.
\<close>

type_synonym fpath = "string list"

definition render :: "fpath \<Rightarrow> string" where
  "render p = join ''/'' p"

definition relative_to :: "fpath \<Rightarrow> fpath \<Rightarrow> fpath res" where
  "relative_to p base =
     (if startswith base p then Ok (drop (length base) p) else Raise ValueError)"

text \<open>The components of a relative path given as text: \<open>Path(f).parts\<close>.\<close>

definition parts :: "string \<Rightarrow> fpath" where
  "parts f = filter (\<lambda>c. c \<noteq> [] \<and> c \<noteq> ''.'') (split_all ''/'' f)"

text \<open>
  JSON values as \<open>json.load\<close> returns them; an object is a Python \<open>dict\<close>, which
  keeps its keys in insertion order.
\<close>

datatype json =
  JNull | JBool bool | JNum int | JStr string | JArr "json list" | JObj "(string \<times> json) list"

text \<open>
  What a file holds: text, a well-formed JSON document (given by its value), a zip
  archive (given by the names of its entries), or a binary document that only external
  tools read.
\<close>

datatype content = Text string | Json json | Zip "string list" | Binary nat

record world =
  files :: "fpath \<rightharpoonup> content"
  out :: "string list"
  err :: "string list"
  stdin :: "string list"

definition say :: "string \<Rightarrow> 'a world_scheme \<Rightarrow> 'a world_scheme" where
  "say m w = w\<lparr>out := out w @ [m]\<rparr>"

definition complain :: "string \<Rightarrow> 'a world_scheme \<Rightarrow> 'a world_scheme" where
  "complain m w = w\<lparr>err := err w @ [m]\<rparr>"

definition store :: "fpath \<Rightarrow> content \<Rightarrow> 'a world_scheme \<Rightarrow> 'a world_scheme" where
  "store p c w = w\<lparr>files := (files w)(p \<mapsto> c)\<rparr>"

definition unlink :: "fpath \<Rightarrow> 'a world_scheme \<Rightarrow> 'a world_scheme" where
  "unlink p w = w\<lparr>files := (files w)(p := None)\<rparr>"

definition exists_file :: "'a world_scheme \<Rightarrow> fpath \<Rightarrow> bool" where
  "exists_file w p = (files w p \<noteq> None)"

text \<open>
  \<open>Path.name\<close>, \<open>Path.suffix\<close>, \<open>Path.stem\<close> and \<open>Path.with_suffix\<close>: the suffix
  starts at the last dot of the name, unless that dot is its first or its last
  character; \<open>with_suffix\<close> raises \<open>ValueError\<close> for a path without a name.
\<close>

definition basename :: "fpath \<Rightarrow> string" where
  "basename p = (if p = [] then [] else last p)"

definition suffix :: "string \<Rightarrow> string" where
  "suffix nm =
     (let after = takeWhile (\<lambda>c. c \<noteq> CHR ''.'') (rev nm)
      in if CHR ''.'' \<in> set nm \<and> after \<noteq> [] \<and> length after + 1 < length nm
         then drop (length nm - length after - 1) nm else [])"

definition stem :: "fpath \<Rightarrow> string" where
  "stem p = take (length (basename p) - length (suffix (basename p))) (basename p)"

definition with_suffix :: "fpath \<Rightarrow> string \<Rightarrow> fpath res" where
  "with_suffix p sfx =
     (if basename p = [] then Raise ValueError
      else Ok (butlast p @ [stem p @ sfx]))"

definition nl :: string where
  "nl = [CHR 0x0A]"

section \<open>The archive builder: \<open>build.py\<close>\<close>

text \<open>
  What the builder gets from outside: the answers of \<open>git ls-files\<close> by pathspec (the
  lines of its output, \<open>None\<close> when the command fails), the lines of
  \<open>git status --porcelain\<close>, the archive \<open>git archive\<close> writes (\<open>None\<close> when it
  fails), and the size in bytes of a file (\<open>st_size\<close>; compression is not modelled).
\<close>

record git =
  git_ls_files :: "string \<Rightarrow> string list option"
  git_status :: "string list"
  git_archive :: "content option"
  st_size :: "content \<Rightarrow> nat"


definition ls_files :: "git \<Rightarrow> string \<Rightarrow> world \<Rightarrow> string list res \<times> world" where
  "ls_files g p w =
     (case git_ls_files g p of
        None \<Rightarrow> (Exit 1, complain ''Error: git ls-files failed'' w)
      | Some ls \<Rightarrow> (Ok (sort (filter (\<lambda>f. strip f \<noteq> []) ls)), w))"




text \<open>
  The loop of \<open>build_skill\<close> over the tracked files: \<open>zf.write\<close> raises
  \<open>FileNotFoundError\<close> for a tracked file that is missing from the working tree; the
  entries written so far stay in the archive.
\<close>

fun write_entries ::
  "fpath \<Rightarrow> string \<Rightarrow> string \<Rightarrow> fpath \<Rightarrow> string list \<Rightarrow> world \<Rightarrow> unit res \<times> world" where
  "write_entries repo_dir skill_name skill_src_prefix archive_path [] w = (Ok (), w)"
| "write_entries repo_dir skill_name skill_src_prefix archive_path (git_path # rest) w =
     (let rel = drop (length skill_src_prefix) git_path;
          arcname = skill_name @ ''/'' @ rel
      in if exists_file w (repo_dir @ parts git_path) then
           write_entries repo_dir skill_name skill_src_prefix archive_path rest
             (case files w archive_path of
                Some (Zip es) \<Rightarrow> store archive_path (Zip (es @ [arcname])) w
              | _ \<Rightarrow> w)
         else (Raise FileNotFoundError, w))"

definition build_skill ::
  "git \<Rightarrow> fpath \<Rightarrow> string \<Rightarrow> fpath \<Rightarrow> world \<Rightarrow> fpath res \<times> world" where
  "build_skill g repo_dir skill_name output_dir w =
     (let archive_path = output_dir @ [skill_name @ ''.zip''];
          skill_src_prefix = ''skills/'' @ skill_name @ ''/''
      in and_then (ls_files g skill_src_prefix w) (\<lambda>tracked w1.
           if tracked = [] then
             (Ok archive_path,
              say (''  Warning: no tracked files found for skill '' @ [CHR 0x27] @ skill_name
                   @ [CHR 0x27] @ '', skipping'') w1)
           else
             and_then
               (write_entries repo_dir skill_name skill_src_prefix archive_path tracked
                  (store archive_path (Zip []) w1))
               (\<lambda>_ w2. (Ok archive_path, w2))))"










section \<open>The document converter: \<open>convert-docs-to-md.py\<close>\<close>

text \<open>
  The external converters, and what the converter gets from them: whether \<open>pandoc\<close>
  answered \<open>--version\<close> when the converter was created, what \<open>pandoc\<close> writes for a
  document (or its error text), whether \<open>which pdftotext\<close> succeeds and what
  \<open>pdftotext\<close> extracts, whether \<open>openpyxl\<close> and \<open>pptx\<close> can be imported and what
  they load, and the files of a folder (\<open>iterdir\<close>, or \<open>rglob('*')\<close> when the flag is
  set, each filtered by \<open>is_file\<close>; \<open>None\<close> for a folder that does not exist).
\<close>

datatype tool = Pandoc | Pdftotext | Openpyxl | PythonPptx

text \<open>
  The value of a spreadsheet cell: \<open>None\<close>, a string, an integer, a boolean, or a value
  of another type (a float, a date), given by its truth value and its \<open>str()\<close>.
\<close>

datatype cell = CNone | CStr string | CInt int | CBool bool | CObj bool string

type_synonym sheet = "string \<times> cell list list"

type_synonym workbook = "sheet list"

text \<open>A slide is the list of its shapes: the text of a shape, \<open>None\<close> for a shape without text attribute.\<close>

type_synonym slide = "string option list"

record tools =
  pandoc_available :: bool
  run_pandoc :: "content \<Rightarrow> bool \<Rightarrow> string + content"
  has_pdftotext :: bool
  run_pdftotext :: "content \<Rightarrow> string + string"
  has_openpyxl :: bool
  load_workbook :: "content \<Rightarrow> string + workbook"
  has_pptx :: bool
  load_presentation :: "content \<Rightarrow> string + slide list"
  listing :: "fpath \<Rightarrow> bool \<Rightarrow> fpath list option"

record config =
  keep_original :: bool
  overwrite :: bool
  extract_images :: bool
  verbose :: bool

text \<open>The world of the converter also records which external converter was run, in order.\<close>

record cworld = world +
  calls :: "tool list"

definition used :: "tool \<Rightarrow> cworld \<Rightarrow> cworld" where
  "used t w = w\<lparr>calls := calls w @ [t]\<rparr>"

definition SUPPORTED_FORMATS :: "(string \<times> string) list" where
  "SUPPORTED_FORMATS =
     [(''.docx'', ''Word Document''), (''.doc'', ''Word Document (old format)''),
      (''.pdf'', ''PDF Document''), (''.xlsx'', ''Excel Spreadsheet''),
      (''.xls'', ''Excel Spreadsheet (old format)''), (''.pptx'', ''PowerPoint Presentation''),
      (''.ppt'', ''PowerPoint Presentation (old format)''), (''.odt'', ''OpenDocument Text''),
      (''.rtf'', ''Rich Text Format''), (''.html'', ''HTML Document''), (''.htm'', ''HTML Document'')]"

definition supported :: "string \<Rightarrow> bool" where
  "supported ext = (ext \<in> set (map fst SUPPORTED_FORMATS))"

text \<open>\<open>_print\<close>: a message is shown in verbose mode, or when forced. (The pictograms that start the messages of the script are left out.)\<close>

definition tell :: "config \<Rightarrow> bool \<Rightarrow> string \<Rightarrow> cworld \<Rightarrow> cworld" where
  "tell cfg force m w = (if verbose cfg \<or> force then say m w else w)"

definition convert_with_pandoc ::
  "tools \<Rightarrow> config \<Rightarrow> content \<Rightarrow> fpath \<Rightarrow> cworld \<Rightarrow> bool res \<times> cworld" where
  "convert_with_pandoc T cfg doc output_file w =
     (if \<not> pandoc_available T then
        (Ok False,
         tell cfg True ''   Windows: https://pandoc.org/installing.html''
           (tell cfg True ''   macOS:   brew install pandoc''
              (tell cfg True ''   Linux:   sudo apt install pandoc''
                 (tell cfg True ''Pandoc not installed. Install with:'' w))))
      else
        (case run_pandoc T doc (extract_images cfg) of
           Inr md \<Rightarrow>
             (Ok True,
              tell cfg False (''Converted: '' @ basename output_file)
                (store output_file md (used Pandoc w)))
         | Inl output \<Rightarrow>
             (Ok False, tell cfg True (''Conversion failed: '' @ output) (used Pandoc w))))"

definition convert_pdf ::
  "tools \<Rightarrow> config \<Rightarrow> fpath \<Rightarrow> content \<Rightarrow> fpath \<Rightarrow> cworld \<Rightarrow> bool res \<times> cworld" where
  "convert_pdf T cfg input_file doc output_file w =
     (if pandoc_available T then
        convert_with_pandoc T cfg doc output_file
          (tell cfg False ''   Using pandoc for PDF conversion...'' w)
      else if \<not> has_pdftotext T then
        (Ok False,
         tell cfg True ''   Install: sudo apt install poppler-utils''
           (tell cfg True ''Neither pandoc nor pdftotext available''
              (tell cfg True ''   Pandoc not available, trying pdftotext...'' w)))
      else
        and_then (with_suffix input_file ''.txt'',
                  tell cfg True ''   Pandoc not available, trying pdftotext...'' w)
          (\<lambda>text_file w1.
             case run_pdftotext T doc of
               Inl output \<Rightarrow>
                 (Ok False,
                  tell cfg True (''PDF extraction failed: '' @ output) (used Pdftotext w1))
             | Inr txt \<Rightarrow>
                 (Ok True,
                  tell cfg False (''Converted: '' @ basename output_file)
                    (unlink text_file
                       (store output_file
                          (Text (''# '' @ stem input_file @ nl @ nl
                                 @ ''*Converted from PDF - formatting may be limited*'' @ nl @ nl
                                 @ ''---'' @ nl @ nl @ txt))
                          (store text_file (Text txt) (used Pdftotext w1)))))))"

text \<open>
  The Markdown of a workbook. \<open>truthy\<close> is Python's truth value of a cell: it is what
  \<open>any(cell for cell in row)\<close> and \<open>cell or ""\<close> test.
\<close>

fun truthy :: "cell \<Rightarrow> bool" where
  "truthy CNone = False"
| "truthy (CStr s) = (s \<noteq> [])"
| "truthy (CInt i) = (i \<noteq> 0)"
| "truthy (CBool b) = b"
| "truthy (CObj t s) = t"

fun str_cell :: "cell \<Rightarrow> string" where
  "str_cell CNone = ''None''"
| "str_cell (CStr s) = s"
| "str_cell (CInt i) = str_int i"
| "str_cell (CBool b) = (if b then ''True'' else ''False'')"
| "str_cell (CObj t s) = s"

definition cell_text :: "cell \<Rightarrow> string" where
  "cell_text c = (if truthy c then str_cell c else [])"

definition table_row :: "cell list \<Rightarrow> string" where
  "table_row row = ''| '' @ join '' | '' (map cell_text row) @ '' |'' @ nl"

definition data_rows :: "cell list list \<Rightarrow> cell list list" where
  "data_rows rows = filter (\<lambda>row. list_ex truthy row) rows"

definition sheet_markdown :: "sheet \<Rightarrow> string" where
  "sheet_markdown sh =
     ''## '' @ fst sh @ nl @ nl @
     (case snd sh of
        [] \<Rightarrow> ''*Empty sheet*'' @ nl @ nl
      | header # rows \<Rightarrow>
          table_row header
          @ ''|'' @ concat (replicate (length header) '' --- |'') @ nl
          @ concat (map table_row (data_rows rows))
          @ nl)"

definition excel_markdown :: "string \<Rightarrow> workbook \<Rightarrow> string" where
  "excel_markdown title wb =
     ''# '' @ title @ nl @ nl @ ''*Converted from Excel*'' @ nl @ nl @ ''---'' @ nl @ nl
     @ concat (map sheet_markdown wb)"

definition convert_excel ::
  "tools \<Rightarrow> config \<Rightarrow> fpath \<Rightarrow> content \<Rightarrow> fpath \<Rightarrow> cworld \<Rightarrow> bool res \<times> cworld" where
  "convert_excel T cfg input_file doc output_file w =
     (if \<not> has_openpyxl T then
        (Ok False,
         tell cfg True ''   pip install openpyxl''
           (tell cfg True ''openpyxl not installed. Install with:'' w))
      else
        (case load_workbook T doc of
           Inl e \<Rightarrow>
             (Ok False, tell cfg True (''Excel conversion failed: '' @ e) (used Openpyxl w))
         | Inr wb \<Rightarrow>
             (Ok True,
              tell cfg False (''Converted: '' @ basename output_file)
                (store output_file (Text (excel_markdown (stem input_file) wb))
                   (used Openpyxl w)))))"

definition slide_markdown :: "nat \<times> slide \<Rightarrow> string" where
  "slide_markdown s =
     ''## Slide '' @ str_nat (fst s) @ nl @ nl
     @ concat (map (\<lambda>shape. case shape of
                      None \<Rightarrow> []
                    | Some t \<Rightarrow> if t \<noteq> [] then t @ nl @ nl else [])
                 (snd s))
     @ ''---'' @ nl @ nl"

definition powerpoint_markdown :: "string \<Rightarrow> slide list \<Rightarrow> string" where
  "powerpoint_markdown title slides =
     ''# '' @ title @ nl @ nl @ ''*Converted from PowerPoint*'' @ nl @ nl @ ''---'' @ nl @ nl
     @ concat (map slide_markdown (zip [1 ..< Suc (length slides)] slides))"

definition convert_powerpoint ::
  "tools \<Rightarrow> config \<Rightarrow> fpath \<Rightarrow> content \<Rightarrow> fpath \<Rightarrow> cworld \<Rightarrow> bool res \<times> cworld" where
  "convert_powerpoint T cfg input_file doc output_file w =
     (if pandoc_available T then convert_with_pandoc T cfg doc output_file w
      else if \<not> has_pptx T then
        (Ok False,
         tell cfg True ''   Install: pip install python-pptx''
           (tell cfg True ''Neither pandoc nor python-pptx available'' w))
      else
        (case load_presentation T doc of
           Inl e \<Rightarrow>
             (Ok False,
              tell cfg True (''PowerPoint conversion failed: '' @ e) (used PythonPptx w))
         | Inr slides \<Rightarrow>
             (Ok True,
              tell cfg False (''Converted: '' @ basename output_file)
                (store output_file (Text (powerpoint_markdown (stem input_file) slides))
                   (used PythonPptx w)))))"

text \<open>The output file of \<open>convert_file\<close>: given or derived, always with the suffix \<open>.md\<close>.\<close>

definition target :: "fpath \<Rightarrow> fpath option \<Rightarrow> fpath res" where
  "target input_file output_file =
     (case output_file of
        None \<Rightarrow> with_suffix input_file ''.md''
      | Some p \<Rightarrow> if suffix (basename p) \<noteq> ''.md'' then with_suffix p ''.md'' else Ok p)"

definition convert_file ::
  "tools \<Rightarrow> config \<Rightarrow> fpath \<Rightarrow> fpath option \<Rightarrow> cworld \<Rightarrow> bool res \<times> cworld" where
  "convert_file T cfg input_file output_file w =
     (case files w input_file of
        None \<Rightarrow> (Ok False, tell cfg True (''File not found: '' @ render input_file) w)
      | Some doc \<Rightarrow>
          (let ext = lower (suffix (basename input_file)) in
           if \<not> supported ext then
             (Ok False,
              tell cfg True (''   Supported: '' @ join '', '' (map fst SUPPORTED_FORMATS))
                (tell cfg True (''Unsupported format: '' @ ext @ '' (''
                                @ basename input_file @ '')'') w))
           else
             and_then (target input_file output_file, w) (\<lambda>out_file w1.
               if exists_file w1 out_file \<and> \<not> overwrite cfg then
                 (Ok True, tell cfg False (''Skipping (already exists): '' @ basename out_file) w1)
               else
                 (let w2 = tell cfg False (''Converting: '' @ basename input_file @ '' -> ''
                                           @ basename out_file) w1
                  in if ext \<in> set [''.docx'', ''.doc'', ''.odt'', ''.rtf'', ''.html'', ''.htm'']
                     then convert_with_pandoc T cfg doc out_file w2
                     else if ext = ''.pdf'' then convert_pdf T cfg input_file doc out_file w2
                     else if ext \<in> set [''.xlsx'', ''.xls'']
                     then convert_excel T cfg input_file doc out_file w2
                     else if ext \<in> set [''.pptx'', ''.ppt'']
                     then convert_powerpoint T cfg input_file doc out_file w2
                     else (Ok False, tell cfg True (''No converter available for: '' @ ext) w2)))))"

text \<open>
  The loop of \<open>convert_folder\<close>: the output file of each input, then \<open>convert_file\<close>;
  \<open>counts\<close> are the successes and the failures so far.
\<close>

definition folder_target :: "fpath \<Rightarrow> fpath \<Rightarrow> bool \<Rightarrow> fpath \<Rightarrow> fpath res" where
  "folder_target input_folder output_folder recursive file =
     (if recursive then
        (case relative_to file input_folder of
           Ok rel_path \<Rightarrow>
             (case with_suffix rel_path ''.md'' of
                Ok r \<Rightarrow> Ok (output_folder @ r)
              | Exit n \<Rightarrow> Exit n
              | Raise e \<Rightarrow> Raise e)
         | Exit n \<Rightarrow> Exit n
         | Raise e \<Rightarrow> Raise e)
      else
        (case with_suffix file ''.md'' of
           Ok r \<Rightarrow> Ok (output_folder @ [basename r])
         | Exit n \<Rightarrow> Exit n
         | Raise e \<Rightarrow> Raise e))"

fun convert_each ::
  "tools \<Rightarrow> config \<Rightarrow> fpath \<Rightarrow> fpath \<Rightarrow> bool \<Rightarrow> fpath list \<Rightarrow> nat \<times> nat \<Rightarrow> cworld
     \<Rightarrow> (nat \<times> nat) res \<times> cworld" where
  "convert_each T cfg input_folder output_folder recursive [] counts w = (Ok counts, w)"
| "convert_each T cfg input_folder output_folder recursive (file # rest) counts w =
     (case folder_target input_folder output_folder recursive file of
        Ok output_file \<Rightarrow>
          (case convert_file T cfg file (Some output_file) w of
             (Ok ok, w1) \<Rightarrow>
               convert_each T cfg input_folder output_folder recursive rest
                 (if ok then (fst counts + 1, snd counts) else (fst counts, snd counts + 1)) w1
           | (Exit n, w1) \<Rightarrow> (Exit n, w1)
           | (Raise e, w1) \<Rightarrow> (Raise e, w1))
      | Exit n \<Rightarrow> (Exit n, w)
      | Raise e \<Rightarrow> (Raise e, w))"

definition convert_folder ::
  "tools \<Rightarrow> config \<Rightarrow> fpath \<Rightarrow> fpath \<Rightarrow> bool \<Rightarrow> cworld \<Rightarrow> (nat \<times> nat) res \<times> cworld" where
  "convert_folder T cfg input_folder output_folder recursive w =
     (case listing T input_folder recursive of
        None \<Rightarrow> (Ok (0, 0), tell cfg True (''Folder not found: '' @ render input_folder) w)
      | Some fs \<Rightarrow>
          (let supported_files = filter (\<lambda>f. supported (lower (suffix (basename f)))) fs in
           if supported_files = [] then
             (Ok (0, 0),
              tell cfg True (''No supported documents found in '' @ render input_folder) w)
           else
             convert_each T cfg input_folder output_folder recursive supported_files (0, 0)
               (tell cfg False (''Output to: '' @ render output_folder @ nl)
                  (tell cfg False (nl @ ''Converting '' @ str_nat (length supported_files)
                                   @ '' files from '' @ render input_folder) w))))"

text \<open>
  \<open>main\<close>, after \<open>argparse\<close>: the two inputs exclude each other, so at most one of
  \<open>--file\<close> and \<open>--folder\<close> is given.
\<close>

record cargs =
  supported_formats :: bool
  arg_file :: "fpath option"
  arg_folder :: "fpath option"
  arg_output :: "fpath option"
  arg_recursive :: bool
  arg_overwrite :: bool
  arg_extract_images :: bool
  delete_original :: bool
  quiet :: bool

definition convert_main :: "tools \<Rightarrow> cargs \<Rightarrow> cworld \<Rightarrow> unit res \<times> cworld" where
  "convert_main T args w =
     (if supported_formats args then
        (Exit 0,
         foldl (\<lambda>v m. say m v) w
           ([''Supported document formats:'']
            @ map (\<lambda>(ext, desc). ''  '' @ ext @ replicate (8 - length ext) CHR '' '' @ '' - '' @ desc)
                SUPPORTED_FORMATS
            @ [nl @ ''Required tools:'', ''  - pandoc (most formats)'',
               ''  - pdftotext (PDFs without pandoc)'',
               ''  - openpyxl (Excel files) - pip install openpyxl'',
               ''  - python-pptx (PowerPoint without pandoc) - pip install python-pptx'']))
      else
        (let cfg = \<lparr>keep_original = \<not> delete_original args, overwrite = arg_overwrite args,
                    extract_images = arg_extract_images args, verbose = \<not> quiet args\<rparr>
         in case arg_file args of
              Some f \<Rightarrow>
                and_then (convert_file T cfg f (arg_output args) w) (\<lambda>success w1.
                  (Exit (if success then 0 else 1), w1))
            | None \<Rightarrow>
                (case arg_folder args of
                   None \<Rightarrow>
                     (Exit 2,
                      complain ''error: one of the arguments --file or --folder is required'' w)
                 | Some d \<Rightarrow>
                     and_then
                       (convert_folder T cfg d
                          (case arg_output args of Some p \<Rightarrow> p | None \<Rightarrow> d @ [''Markdown''])
                          (arg_recursive args) w)
                       (\<lambda>counts w1.
                          (Exit (if snd counts = 0 then 0 else 1),
                           (if snd counts > 0
                            then say (''Failed: '' @ str_nat (snd counts)) else id)
                             (say (nl @ ''Successfully converted: '' @ str_nat (fst counts))
                                w1))))))"

text \<open>
  A machine on which every external converter is installed and works, a workbook with
  one sheet (a header row and a data row of two zeros), and a world that holds the
  spreadsheet \<open>book.xlsx\<close> and nothing else.
\<close>

definition zero_book :: workbook where
  "zero_book = [(''S'', [[CStr ''a'', CStr ''b''], [CInt 0, CInt 0]])]"

definition office_tools :: tools where
  "office_tools =
     \<lparr>pandoc_available = True, run_pandoc = (\<lambda>doc images. Inr (Text ''converted'')),
      has_pdftotext = True, run_pdftotext = (\<lambda>doc. Inr ''text''),
      has_openpyxl = True, load_workbook = (\<lambda>doc. Inr zero_book),
      has_pptx = True, load_presentation = (\<lambda>doc. Inr []),
      listing = (\<lambda>d r. None)\<rparr>"

definition plain_config :: config where
  "plain_config =
     \<lparr>keep_original = True, overwrite = False, extract_images = False, verbose = True\<rparr>"

definition book_world :: cworld where
  "book_world =
     \<lparr>files = [[''book.xlsx''] \<mapsto> Binary 0], out = [], err = [], stdin = [], calls = []\<rparr>"

text \<open>A world that holds the document \<open>report.pdf\<close>, and one that also holds \<open>report.md\<close>.\<close>

definition report_world :: cworld where
  "report_world =
     \<lparr>files = [[''report.pdf''] \<mapsto> Binary 1], out = [], err = [], stdin = [], calls = []\<rparr>"

definition converted_world :: cworld where
  "converted_world =
     \<lparr>files = [[''report.pdf''] \<mapsto> Binary 1, [''report.md''] \<mapsto> Text ''old''],
      out = [], err = [], stdin = [], calls = []\<rparr>"

text \<open>The arguments \<open>--file report.pdf --output report.md\<close>.\<close>

definition report_args :: cargs where
  "report_args =
     \<lparr>supported_formats = False, arg_file = Some [''report.pdf''], arg_folder = None,
      arg_output = Some [''report.md''], arg_recursive = False, arg_overwrite = False,
      arg_extract_images = False, delete_original = False, quiet = False\<rparr>"

section \<open>The setup wizard: \<open>agile-board/scripts/setup.py\<close>\<close>

text \<open>
  The world keeps what the wizard asks (the prompts of \<open>input\<close>), what it prints
  before it exits or when it changes a home-directory file, and every file it writes.
  Its other informational messages are not part of the model. A file that holds
  well-formed JSON is \<open>Json\<close> of its value: \<open>json.load\<close> returns that value and raises
  on any other content, and \<open>json.dump\<close> writes \<open>Json\<close> of the value it is given.
\<close>

subsection \<open>Reading answers\<close>

text \<open>\<open>input(prompt)\<close> takes the next line of the standard input; at its end it raises \<open>EOFError\<close>.\<close>

definition input :: "string \<Rightarrow> world \<Rightarrow> string res \<times> world" where
  "input prompt w =
     (case stdin w of
        [] \<Rightarrow> (Raise EOFError, say prompt w)
      | line # rest \<Rightarrow> (Ok line, (say prompt w)\<lparr>stdin := rest\<rparr>))"

definition ask :: "string \<Rightarrow> world \<Rightarrow> string res \<times> world" where
  "ask prompt w = and_then (input prompt w) (\<lambda>line w1. (Ok (strip line), w1))"

text \<open>An argument counts as given when it is neither absent nor the empty string.\<close>

definition given :: "string option \<Rightarrow> string option" where
  "given a = (case a of None \<Rightarrow> None | Some s \<Rightarrow> if s = [] then None else Some s)"

definition arg_or_ask :: "string option \<Rightarrow> string \<Rightarrow> world \<Rightarrow> string res \<times> world" where
  "arg_or_ask a prompt w = (case given a of Some s \<Rightarrow> (Ok s, w) | None \<Rightarrow> ask prompt w)"

text \<open>
  \<open>int(choice)\<close>: an optional sign and decimal digits, single underscores allowed
  between digits; \<open>None\<close> stands for \<open>ValueError\<close>.
\<close>

definition is_digit :: "char \<Rightarrow> bool" where
  "is_digit c = (48 \<le> (of_char c :: nat) \<and> (of_char c :: nat) \<le> 57)"

fun digits_value :: "string \<Rightarrow> nat \<Rightarrow> nat option" where
  "digits_value [] acc = Some acc"
| "digits_value (c # cs) acc =
     (if is_digit c then digits_value cs (10 * acc + (of_char c - 48))
      else if c = CHR ''_'' \<and> cs \<noteq> [] \<and> is_digit (hd cs) then digits_value cs acc
      else None)"

definition py_int :: "string \<Rightarrow> int option" where
  "py_int s =
     (let t = strip s;
          neg = (t \<noteq> [] \<and> hd t = CHR ''-'');
          body = (if t \<noteq> [] \<and> (hd t = CHR ''-'' \<or> hd t = CHR ''+'') then tl t else t)
      in if body = [] \<or> \<not> is_digit (hd body) then None
         else (case digits_value body 0 of
                 None \<Rightarrow> None
               | Some n \<Rightarrow> Some (if neg then - int n else int n)))"

text \<open>\<open>xs[i]\<close>: a negative index counts from the end; \<open>None\<close> stands for \<open>IndexError\<close>.\<close>

definition py_index :: "'a list \<Rightarrow> int \<Rightarrow> 'a option" where
  "py_index xs i =
     (let n = int (length xs)
      in if 0 \<le> i \<and> i < n then Some (xs ! nat i)
         else if - n \<le> i \<and> i < 0 then Some (xs ! nat (n + i))
         else None)"

text \<open>
  The body of the two \<open>try\<close> blocks of the numbered prompts,
  \<open>items[int(choice) - 1]\<close>: \<open>None\<close> when \<open>ValueError\<close> or \<open>IndexError\<close> is caught.
\<close>

definition pick :: "'a list \<Rightarrow> string \<Rightarrow> 'a option" where
  "pick items choice =
     (case py_int choice of None \<Rightarrow> None | Some k \<Rightarrow> py_index items (k - 1))"

subsection \<open>Operations on JSON values\<close>

definition then_res :: "'a res \<Rightarrow> ('a \<Rightarrow> 'b res) \<Rightarrow> 'b res" where
  "then_res m f = (case m of Ok x \<Rightarrow> f x | Exit n \<Rightarrow> Exit n | Raise e \<Rightarrow> Raise e)"

fun upd :: "string \<Rightarrow> json \<Rightarrow> (string \<times> json) list \<Rightarrow> (string \<times> json) list" where
  "upd k v [] = [(k, v)]"
| "upd k v (kv # kvs) = (if fst kv = k then (k, v) # kvs else kv # upd k v kvs)"

text \<open>
  \<open>key in x\<close>, \<open>x[key]\<close>, \<open>x[key] = v\<close> and \<open>x.append(v)\<close> for a string key and a
  value \<open>x\<close> that \<open>json.load\<close> returned: a dictionary has keys, a list has elements, a
  string has substrings, and the other values raise \<open>TypeError\<close>.
\<close>

fun has :: "string \<Rightarrow> json \<Rightarrow> bool res" where
  "has k (JObj kvs) = Ok (map_of kvs k \<noteq> None)"
| "has k (JArr xs) = Ok (JStr k \<in> set xs)"
| "has k (JStr s) = Ok (contains k s)"
| "has k JNull = Raise TypeError"
| "has k (JBool b) = Raise TypeError"
| "has k (JNum n) = Raise TypeError"

fun getitem :: "json \<Rightarrow> string \<Rightarrow> json res" where
  "getitem (JObj kvs) k = (case map_of kvs k of Some v \<Rightarrow> Ok v | None \<Rightarrow> Raise KeyError)"
| "getitem (JArr xs) k = Raise TypeError"
| "getitem (JStr s) k = Raise TypeError"
| "getitem JNull k = Raise TypeError"
| "getitem (JBool b) k = Raise TypeError"
| "getitem (JNum n) k = Raise TypeError"

fun setitem :: "json \<Rightarrow> string \<Rightarrow> json \<Rightarrow> json res" where
  "setitem (JObj kvs) k v = Ok (JObj (upd k v kvs))"
| "setitem (JArr xs) k v = Raise TypeError"
| "setitem (JStr s) k v = Raise TypeError"
| "setitem JNull k v = Raise TypeError"
| "setitem (JBool b) k v = Raise TypeError"
| "setitem (JNum n) k v = Raise TypeError"

fun append :: "json \<Rightarrow> json \<Rightarrow> json res" where
  "append (JArr xs) v = Ok (JArr (xs @ [v]))"
| "append (JObj kvs) v = Raise AttributeError"
| "append (JStr s) v = Raise AttributeError"
| "append JNull v = Raise AttributeError"
| "append (JBool b) v = Raise AttributeError"
| "append (JNum n) v = Raise AttributeError"

text \<open>\<open>if key not in x: x[key] = default\<close>.\<close>

definition setdefault :: "json \<Rightarrow> string \<Rightarrow> json \<Rightarrow> json res" where
  "setdefault x k d = then_res (has k x) (\<lambda>there. if there then Ok x else setitem x k d)"

subsection \<open>The three files\<close>

definition config_path :: "fpath \<Rightarrow> fpath" where
  "config_path project_dir = project_dir @ [''.claude'', ''agile-board-config.json'']"

definition registry_path :: "fpath \<Rightarrow> fpath" where
  "registry_path home = home @ [''.claude.json'']"

definition settings_path :: "fpath \<Rightarrow> fpath" where
  "settings_path home = home @ [''.claude'', ''settings.json'']"

definition gitignore_path :: "fpath \<Rightarrow> fpath" where
  "gitignore_path project_dir = project_dir @ [''.gitignore'']"

text \<open>\<open>update_claude_json\<close>: every exception of the merge is caught and reported.\<close>

definition new_project_entry :: json where
  "new_project_entry =
     JObj [(''allowedTools'', JArr []), (''mcpContextUris'', JArr []), (''mcpServers'', JObj []),
           (''enabledMcpjsonServers'', JArr []), (''disabledMcpjsonServers'', JArr []),
           (''hasTrustDialogAccepted'', JBool True), (''projectOnboardingSeenCount'', JNum 1)]"

definition merge_server :: "string \<Rightarrow> string \<Rightarrow> json \<Rightarrow> json \<Rightarrow> json res" where
  "merge_server project_path board_type mcp_config data =
     then_res (setdefault data ''projects'' (JObj [])) (\<lambda>d1.
     then_res (getitem d1 ''projects'') (\<lambda>ps.
     then_res (setdefault ps project_path new_project_entry) (\<lambda>ps1.
     then_res (getitem ps1 project_path) (\<lambda>pr.
     then_res (setdefault pr ''mcpServers'' (JObj [])) (\<lambda>pr1.
     then_res (getitem pr1 ''mcpServers'') (\<lambda>ms.
     then_res (setitem ms board_type mcp_config) (\<lambda>ms1.
     then_res (setitem pr1 ''mcpServers'' ms1) (\<lambda>pr2.
     then_res (setitem ps1 project_path pr2) (\<lambda>ps2.
       setitem d1 ''projects'' ps2)))))))))"

definition update_claude_json :: "fpath \<Rightarrow> fpath \<Rightarrow> string \<Rightarrow> json \<Rightarrow> world \<Rightarrow> world" where
  "update_claude_json home project_dir board_type mcp_config w =
     (case files w (registry_path home) of
        None \<Rightarrow> say (''/'' @ render (registry_path home) @ '' not found - skipping MCP server setup'') w
      | Some c \<Rightarrow>
          (case (case c of Json data \<Rightarrow>
                    merge_server (''/'' @ render project_dir) board_type mcp_config data
                  | _ \<Rightarrow> Raise ValueError) of
             Ok data' \<Rightarrow>
               say (''Updated MCP server config: /'' @ render (registry_path home))
                 (store (registry_path home) (Json data') w)
           | _ \<Rightarrow>
               say ''You may need to manually add the MCP server configuration.''
                 (say (''Error updating /'' @ render (registry_path home)) w)))"

text \<open>
  \<open>update_claude_settings\<close>: a settings file that cannot be read as JSON counts as
  empty; the steps that follow are outside any \<open>try\<close>, so their exceptions escape.
  \<open>add_wildcard\<close> returns the new settings and whether the wildcard was appended.
\<close>

definition add_wildcard :: "string \<Rightarrow> json \<Rightarrow> (bool \<times> json) res" where
  "add_wildcard wildcard settings =
     then_res (setdefault settings ''permissions'' (JObj [])) (\<lambda>s1.
     then_res (getitem s1 ''permissions'') (\<lambda>p.
     then_res (setdefault p ''allow'' (JArr [])) (\<lambda>p1.
     then_res (getitem p1 ''allow'') (\<lambda>a.
     then_res (has wildcard a) (\<lambda>present.
       if present then
         then_res (setitem s1 ''permissions'' p1) (\<lambda>s2. Ok (False, s2))
       else
         then_res (append a (JStr wildcard)) (\<lambda>a1.
         then_res (setitem p1 ''allow'' a1) (\<lambda>p2.
         then_res (setitem s1 ''permissions'' p2) (\<lambda>s2. Ok (True, s2)))))))))"

definition wildcard_of :: "string \<Rightarrow> string" where
  "wildcard_of board_type = ''mcp__'' @ board_type @ ''__*''"

definition update_claude_settings :: "fpath \<Rightarrow> string \<Rightarrow> world \<Rightarrow> unit res \<times> world" where
  "update_claude_settings home board_type w =
     (let (settings, w1) =
            (case files w (settings_path home) of
               None \<Rightarrow> (JObj [], w)
             | Some (Json v) \<Rightarrow> (v, w)
             | Some _ \<Rightarrow> (JObj [], say (''Error reading /'' @ render (settings_path home)) w))
      in case add_wildcard (wildcard_of board_type) settings of
           Ok (added, settings') \<Rightarrow>
             (Ok (),
              say (''Updated permissions: /'' @ render (settings_path home))
                (store (settings_path home) (Json settings')
                   (say ((if added then ''Added permission wildcard: ''
                          else ''Permission wildcard already exists: '')
                         @ wildcard_of board_type) w1)))
         | Exit n \<Rightarrow> (Exit n, w1)
         | Raise e \<Rightarrow> (Raise e, w1))"

text \<open>
  \<open>update_gitignore\<close>: the entry is appended to an existing \<open>.gitignore\<close> that does not
  contain it. (A \<open>.gitignore\<close> is text; reading other content raises.)
\<close>

definition gitignore_entry :: string where
  "gitignore_entry = ''.claude/agile-board-config.json''"

definition update_gitignore :: "fpath \<Rightarrow> world \<Rightarrow> unit res \<times> world" where
  "update_gitignore project_dir w =
     (case files w (gitignore_path project_dir) of
        None \<Rightarrow> (Ok (), w)
      | Some (Text t) \<Rightarrow>
          if \<not> contains gitignore_entry t then
            (Ok (),
             store (gitignore_path project_dir)
               (Text (t @ nl @ ''# Agile board config (project-specific)'' @ nl
                      @ gitignore_entry @ nl)) w)
          else (Ok (), w)
      | Some _ \<Rightarrow> (Raise ValueError, w))"

subsection \<open>The arguments and the remote services\<close>

record wargs =
  arg_board_type :: "string option"
  arg_force :: bool
  arg_api_token :: "string option"
  arg_workspace_id :: "string option"
  arg_repository_id :: "string option"
  arg_organization_id :: "string option"
  arg_default_pipeline_id :: "string option"
  arg_default_pipeline_name :: "string option"
  arg_default_labels :: "string option"
  arg_jira_url :: "string option"
  arg_project_key :: "string option"
  arg_team_id :: "string option"
  arg_linear_workspace_id :: "string option"

text \<open>
  A workspace or a pipeline as the ZenHub API lists it: its \<open>id\<close> and its \<open>name\<close>.
  The services answer as the three \<open>fetch_...\<close> functions return: the repository id
  that \<open>gh\<close> detects, the workspaces found for a token and a name, and the pipelines
  and the organisation id of a workspace.
\<close>

record node =
  node_id :: string
  node_name :: string

record services =
  fetch_github_repo_id :: "string option"
  fetch_zenhub_workspaces :: "string \<Rightarrow> string \<Rightarrow> node list option"
  fetch_workspace_pipelines :: "string \<Rightarrow> string \<Rightarrow> node list option \<times> string option"

definition opt_json :: "string option \<Rightarrow> json" where
  "opt_json a = (case a of None \<Rightarrow> JNull | Some s \<Rightarrow> JStr s)"

subsection \<open>\<open>setup_zenhub\<close>\<close>

text \<open>
  Step 3: the workspace. With several workspaces found the wizard asks for a number
  (lines 299 to 306); a choice that \<open>pick\<close> rejects ends the run with status 1.
\<close>

definition select_workspace :: "services \<Rightarrow> wargs \<Rightarrow> string \<Rightarrow> world \<Rightarrow> string res \<times> world" where
  "select_workspace S args api_token w =
     (case given (arg_workspace_id args) of
        Some workspace_id \<Rightarrow> (Ok workspace_id, w)
      | None \<Rightarrow>
          and_then (ask ''Workspace name (or part of it): '' w) (\<lambda>workspace_name w1.
            if workspace_name \<noteq> [] then
              (case fetch_zenhub_workspaces S api_token workspace_name of
                 None \<Rightarrow> ask ''Workspace ID: '' w1
               | Some workspaces \<Rightarrow>
                   if workspaces = [] then ask ''Workspace ID: '' w1
                   else if length workspaces = 1 then (Ok (node_id (workspaces ! 0)), w1)
                   else
                     and_then (ask (''Select workspace (1-'' @ str_nat (length workspaces)
                                    @ ''): '') w1)
                       (\<lambda>choice w2.
                          case pick workspaces choice of
                            Some selected_ws \<Rightarrow> (Ok (node_id selected_ws), w2)
                          | None \<Rightarrow> (Exit 1, say ''Invalid choice'' w2)))
            else ask ''Workspace ID: '' w1))"

text \<open>
  Step 4: the default pipeline and the organisation. The result is the pipeline id, the
  pipeline name (\<open>None\<close> when no name was given) and the organisation id found so far.
\<close>

definition select_pipeline ::
  "services \<Rightarrow> wargs \<Rightarrow> string \<Rightarrow> string \<Rightarrow> world
     \<Rightarrow> (string \<times> string option \<times> string option) res \<times> world" where
  "select_pipeline S args api_token workspace_id w =
     (case (given (arg_default_pipeline_id args), given (arg_organization_id args)) of
        (Some pid, Some org) \<Rightarrow> (Ok (pid, arg_default_pipeline_name args, Some org), w)
      | (given_pid, given_org) \<Rightarrow>
          (let (pipelines, org_id) = fetch_workspace_pipelines S api_token workspace_id;
               organization_id = (case given_org of Some org \<Rightarrow> Some org | None \<Rightarrow> given org_id);
               found = (case pipelines of None \<Rightarrow> [] | Some ps \<Rightarrow> ps)
           in case given_pid of
                Some pid \<Rightarrow> (Ok (pid, arg_default_pipeline_name args, organization_id), w)
              | None \<Rightarrow>
                  if found = [] then
                    and_then (ask ''Default pipeline ID: '' w) (\<lambda>pid w1.
                      and_then (ask ''Default pipeline name (e.g., 'Product Backlog'): '' w1)
                        (\<lambda>pname w2. (Ok (pid, Some pname, organization_id), w2)))
                  else
                    and_then (ask (''Select default pipeline (1-'' @ str_nat (length found)
                                   @ ''): '') w)
                      (\<lambda>choice w1.
                         case pick found choice of
                           Some selected_pipeline \<Rightarrow>
                             (Ok (node_id selected_pipeline, Some (node_name selected_pipeline),
                                  organization_id), w1)
                         | None \<Rightarrow> (Exit 1, say ''Invalid choice'' w1))))"

definition require_organization :: "wargs \<Rightarrow> string option \<Rightarrow> world \<Rightarrow> string res \<times> world" where
  "require_organization args organization_id w =
     (case organization_id of
        Some org \<Rightarrow> (Ok org, w)
      | None \<Rightarrow>
          (case (arg_force args, given (arg_organization_id args)) of
             (True, Some org) \<Rightarrow> (Ok org, w)
           | (True, None) \<Rightarrow>
               (Exit 1, say ''Error: Organization ID is required in non-interactive mode'' w)
           | (False, _) \<Rightarrow> ask ''Organization ID: '' w))"

definition read_labels :: "wargs \<Rightarrow> world \<Rightarrow> string list res \<times> world" where
  "read_labels args w =
     and_then
       (case given (arg_default_labels args) of
          Some labels_input \<Rightarrow> (Ok labels_input, w)
        | None \<Rightarrow>
            if arg_force args then (Ok [], w)
            else ask ''Default labels (comma-separated, optional): '' w)
       (\<lambda>labels_input w1.
          (Ok (filter (\<lambda>l. l \<noteq> []) (map strip (split_all '','' labels_input))), w1))"

definition zenhub_mcp_config :: "string \<Rightarrow> string \<Rightarrow> json" where
  "zenhub_mcp_config api_token workspace_id =
     JObj [(''command'', JStr ''npx''),
           (''args'', JArr [JStr ''-y'', JStr ''mcp-remote'', JStr ''https://api.zenhub.com/mcp'',
                            JStr ''--header'', JStr ''Authorization:${API_TOKEN}'',
                            JStr ''--header'', JStr (''X-zh-workspace:'' @ workspace_id)]),
           (''env'', JObj [(''API_TOKEN'', JStr api_token)])]"

definition setup_zenhub ::
  "services \<Rightarrow> wargs \<Rightarrow> world \<Rightarrow> ((string \<times> json) list \<times> json option) res \<times> world" where
  "setup_zenhub S args w =
     and_then (arg_or_ask (arg_api_token args) ''ZenHub API Token (starts with 'zh_'): '' w)
       (\<lambda>api_token w1.
     and_then
       (case given (arg_repository_id args) of
          Some r \<Rightarrow> (Ok r, w1)
        | None \<Rightarrow>
            (case given (fetch_github_repo_id S) of
               Some r \<Rightarrow> (Ok r, w1)
             | None \<Rightarrow> ask ''GitHub Repository ID (GraphQL ID): '' w1))
       (\<lambda>repository_id w2.
     and_then (select_workspace S args api_token w2) (\<lambda>workspace_id w3.
     and_then (select_pipeline S args api_token workspace_id w3) (\<lambda>(pid, pname, org) w4.
     and_then (require_organization args org w4) (\<lambda>organization_id w5.
     and_then (read_labels args w5) (\<lambda>default_labels w6.
       (Ok ([(''workspace_id'', JStr workspace_id), (''repository_id'', JStr repository_id),
             (''organization_id'', JStr organization_id), (''default_pipeline_id'', JStr pid),
             (''default_pipeline_name'', opt_json pname),
             (''default_labels'', JArr (map JStr default_labels))],
            Some (zenhub_mcp_config api_token workspace_id)),
        w6)))))))"

subsection \<open>\<open>setup_jira\<close> and \<open>setup_linear\<close>: the placeholders\<close>

text \<open>
  \<open>rstrip('/')\<close>, and \<open>upper()\<close> on ASCII letters (characters outside ASCII are left as
  they are here; Python maps some of them to characters above 255).
\<close>

definition rstrip_slash :: "string \<Rightarrow> string" where
  "rstrip_slash s = rev (dropWhile (\<lambda>c. c = CHR ''/'') (rev s))"

definition upper :: "string \<Rightarrow> string" where
  "upper s = map (\<lambda>c. if 97 \<le> (of_char c :: nat) \<and> (of_char c :: nat) \<le> 122
                       then char_of ((of_char c :: nat) - 32) else c) s"

definition setup_jira ::
  "wargs \<Rightarrow> world \<Rightarrow> ((string \<times> json) list \<times> json option) res \<times> world" where
  "setup_jira args w =
     and_then (arg_or_ask (arg_jira_url args)
                 ''Jira URL (e.g., https://your-company.atlassian.net): '' w) (\<lambda>jira_url w1.
     and_then (arg_or_ask (arg_project_key args) ''Project key (e.g., PROJ): '' w1)
       (\<lambda>project_key w2.
          (Ok ([(''jira_url'', JStr (rstrip_slash jira_url)),
                (''project_key'', JStr (upper project_key)),
                (''default_labels'', JArr [])],
               None),
           w2)))"

definition setup_linear ::
  "wargs \<Rightarrow> world \<Rightarrow> ((string \<times> json) list \<times> json option) res \<times> world" where
  "setup_linear args w =
     and_then (arg_or_ask (arg_team_id args) ''Team ID: '' w) (\<lambda>team_id w1.
     and_then (arg_or_ask (arg_linear_workspace_id args) ''Workspace ID: '' w1)
       (\<lambda>workspace_id w2.
          (Ok ([(''team_id'', JStr team_id), (''workspace_id'', JStr workspace_id),
                (''default_labels'', JArr [])],
               None),
           w2)))"

subsection \<open>\<open>main\<close>\<close>

text \<open>Lines 64 to 78: an existing config file is overwritten only with \<open>--force\<close> or after the answer \<open>y\<close>.\<close>

definition check_existing :: "fpath \<Rightarrow> wargs \<Rightarrow> world \<Rightarrow> unit res \<times> world" where
  "check_existing project_dir args w =
     (if exists_file w (config_path project_dir) then
        (if arg_force args then (Ok (), w)
         else
           (case input ''Overwrite existing config? (y/N): '' w of
              (Ok answer, w1) \<Rightarrow>
                if lower (strip answer) \<noteq> ''y'' then (Exit 0, say ''Setup cancelled'' w1)
                else (Ok (), w1)
            | (Raise e, w1) \<Rightarrow>
                if e = EOFError
                then (Exit 1, say ''Config exists and no --force flag provided'' w1)
                else (Raise e, w1)
            | (Exit n, w1) \<Rightarrow> (Exit n, w1)))
      else (Ok (), w))"

text \<open>Lines 80 to 107: the board type, from the arguments or from the numbered menu.\<close>

definition choose_board :: "wargs \<Rightarrow> world \<Rightarrow> string res \<times> world" where
  "choose_board args w =
     (case given (arg_board_type args) of
        Some board_type \<Rightarrow> (Ok board_type, w)
      | None \<Rightarrow>
          and_then (ask ''Enter choice (1-3): '' w) (\<lambda>board_choice w1.
            case map_of [(''1'', ''zenhub''), (''2'', ''jira''), (''3'', ''linear'')] board_choice of
              Some board_type \<Rightarrow> (Ok board_type, w1)
            | None \<Rightarrow> (Exit 1, say ''Invalid choice'' w1)))"

text \<open>
  Lines 109 to 141, for a board type that is known: the board-specific questions, then
  the config file, the registry and the permissions (both only with an MCP
  configuration), and \<open>.gitignore\<close>.
\<close>

definition collect ::
  "services \<Rightarrow> string \<Rightarrow> wargs \<Rightarrow> world
     \<Rightarrow> ((string \<times> json) list \<times> json option) res \<times> world" where
  "collect S board_type args w =
     (if board_type = ''zenhub'' then setup_zenhub S args w
      else if board_type = ''jira'' then setup_jira args w
      else if board_type = ''linear'' then setup_linear args w
      else (Ok ([], None), w))"

definition persist ::
  "fpath \<Rightarrow> fpath \<Rightarrow> string \<Rightarrow> (string \<times> json) list \<Rightarrow> json option \<Rightarrow> world
     \<Rightarrow> unit res \<times> world" where
  "persist home project_dir board_type config_data mcp_config w =
     (let w1 = store (config_path project_dir)
                 (Json (JObj ((''board_type'', JStr board_type) # config_data))) w
      in case mcp_config of
           None \<Rightarrow> update_gitignore project_dir w1
         | Some mcp \<Rightarrow>
             and_then
               (update_claude_settings home board_type
                  (update_claude_json home project_dir board_type mcp w1))
               (\<lambda>_ w2. update_gitignore project_dir w2))"

definition configure ::
  "services \<Rightarrow> fpath \<Rightarrow> fpath \<Rightarrow> string \<Rightarrow> wargs \<Rightarrow> world \<Rightarrow> unit res \<times> world" where
  "configure S home project_dir board_type args w =
     and_then (collect S board_type args w) (\<lambda>(config_data, mcp_config) w1.
       persist home project_dir board_type config_data mcp_config w1)"

definition wizard_main ::
  "services \<Rightarrow> fpath \<Rightarrow> fpath \<Rightarrow> wargs \<Rightarrow> world \<Rightarrow> unit res \<times> world" where
  "wizard_main S home project_dir args w =
     and_then (check_existing project_dir args w) (\<lambda>_ w1.
     and_then (choose_board args w1) (\<lambda>board_type w2.
       configure S home project_dir board_type args w2))"

text \<open>
  The script: an exception that escapes \<open>main\<close> is printed and the process exits with
  status 1; \<open>sys.exit\<close> passes through; returning from \<open>main\<close> is status 0.
\<close>

definition wizard_script ::
  "services \<Rightarrow> fpath \<Rightarrow> fpath \<Rightarrow> wargs \<Rightarrow> world \<Rightarrow> nat \<times> world" where
  "wizard_script S home project_dir args w =
     (case wizard_main S home project_dir args w of
        (Ok _, w1) \<Rightarrow> (0, w1)
      | (Exit n, w1) \<Rightarrow> (n, w1)
      | (Raise e, w1) \<Rightarrow> (1, say ''Error'' w1))"

subsection \<open>Concrete runs\<close>

text \<open>
  A world without files in which the lines \<open>typed\<close> wait on the standard input;
  services that find three workspaces and two pipelines; and the arguments
  \<open>--board-type zenhub --api-token zh_t --default-labels bug\<close>.
\<close>

definition typed :: "string list \<Rightarrow> world" where
  "typed lines = \<lparr>files = Map.empty, out = [], err = [], stdin = lines\<rparr>"

definition three_workspaces :: "node list" where
  "three_workspaces =
     [\<lparr>node_id = ''ws-a'', node_name = ''Alpha''\<rparr>, \<lparr>node_id = ''ws-b'', node_name = ''Beta''\<rparr>,
      \<lparr>node_id = ''ws-c'', node_name = ''Gamma''\<rparr>]"

definition two_pipelines :: "node list" where
  "two_pipelines =
     [\<lparr>node_id = ''p-1'', node_name = ''Backlog''\<rparr>, \<lparr>node_id = ''p-2'', node_name = ''Done''\<rparr>]"

definition demo_services :: services where
  "demo_services =
     \<lparr>fetch_github_repo_id = Some ''R_1'',
      fetch_zenhub_workspaces = (\<lambda>token nm. Some three_workspaces),
      fetch_workspace_pipelines = (\<lambda>token ws. (Some two_pipelines, Some ''org-1''))\<rparr>"

definition no_args :: wargs where
  "no_args =
     \<lparr>arg_board_type = None, arg_force = False, arg_api_token = None, arg_workspace_id = None,
      arg_repository_id = None, arg_organization_id = None, arg_default_pipeline_id = None,
      arg_default_pipeline_name = None, arg_default_labels = None, arg_jira_url = None,
      arg_project_key = None, arg_team_id = None, arg_linear_workspace_id = None\<rparr>"

definition zenhub_args :: wargs where
  "zenhub_args =
     no_args\<lparr>arg_board_type := Some ''zenhub'', arg_api_token := Some ''zh_t'',
             arg_default_labels := Some ''bug''\<rparr>"

text \<open>
  The arguments \<open>--board-type jira --jira-url https://j.example/ --project-key ab\<close>,
  and a world in which the project already has a config file and the line \<open>answer\<close>
  waits on the standard input.
\<close>

definition jira_args :: wargs where
  "jira_args =
     no_args\<lparr>arg_board_type := Some ''jira'', arg_jira_url := Some ''https://j.example/'',
             arg_project_key := Some ''ab''\<rparr>"

definition configured :: "string \<Rightarrow> world" where
  "configured answer =
     \<lparr>files = [config_path [''proj''] \<mapsto> Json (JObj [(''board_type'', JStr ''zenhub'')])],
      out = [], err = [], stdin = [answer]\<rparr>"

text \<open>The allow list of the permissions file, when the file holds one.\<close>

definition allow_list :: "world \<Rightarrow> fpath \<Rightarrow> json list option" where
  "allow_list w home =
     (case files w (settings_path home) of
        Some (Json (JObj kvs)) \<Rightarrow>
          (case map_of kvs ''permissions'' of
             Some (JObj ps) \<Rightarrow>
               (case map_of ps ''allow'' of Some (JArr xs) \<Rightarrow> Some xs | _ \<Rightarrow> None)
           | _ \<Rightarrow> None)
      | _ \<Rightarrow> None)"

text \<open>A permissions file whose allow list holds the ZenHub wildcard twice.\<close>

definition doubled :: world where
  "doubled =
     \<lparr>files = [settings_path [''home''] \<mapsto>
                 Json (JObj [(''permissions'',
                   JObj [(''allow'', JArr [JStr ''mcp__zenhub__*'', JStr ''mcp__zenhub__*''])])])],
      out = [], err = [], stdin = []\<rparr>"

section \<open>Verification\<close>

subsection \<open>Sharing-URL parsing\<close>

lemma startswith_append: "startswith p s \<Longrightarrow> s = p @ drop (length p) s"
  unfolding startswith_def by (metis append_take_drop_id)

lemma split_first_Some: "split_first sep s = Some (a, b) \<Longrightarrow> s = a @ sep @ b"
proof (induction s arbitrary: a b)
  case Nil
  then show ?case by simp
next
  case (Cons c cs)
  show ?case
  proof (cases "startswith sep (c # cs)")
    case True
    with Cons.prems have "a = []" and "b = drop (length sep) (c # cs)" by simp_all
    with startswith_append [OF True] show ?thesis by simp
  next
    case False
    with Cons.prems obtain a' where s: "split_first sep cs = Some (a', b)" and a: "a = c # a'"
      by (auto split: option.splits)
    from Cons.IH [OF s] a show ?thesis by simp
  qed
qed




lemma split_first_hit: "x \<notin> set a \<Longrightarrow> split_first [x] (a @ x # b) = Some (a, b)"
  by (induction a) (auto simp: startswith_def)

lemma split_first_miss: "x \<notin> set s \<Longrightarrow> split_first [x] s = None"
  by (induction s) (auto simp: startswith_def)

lemma u_sites: "u ''/sites/'' = [47, 115, 105, 116, 101, 115, 47]"
  by (simp add: u_def)

lemma u_slash: "u ''/'' = [47]"
  by (simp add: u_def)

lemma splitn_hit:
  "x \<notin> set a \<Longrightarrow> 0 < n \<Longrightarrow> splitn n [x] (a @ x # b) = a # splitn (n - 1) [x] b"
  by (cases n) (simp_all add: split_first_hit)

lemma splitn_miss: "x \<notin> set s \<Longrightarrow> splitn n [x] s = [s]"
  by (cases n) (simp_all add: split_first_miss)

lemma splitn_sites_prefix:
  "splitn 4 [47] ([47, 115, 105, 116, 101, 115, 47] @ d)
     = [] # [115, 105, 116, 101, 115] # splitn 2 [47::nat] d"
proof -
  have a: "splitn 4 [47] ([] @ 47 # [115, 105, 116, 101, 115] @ 47 # d)
           = [] # splitn 3 [47::nat] ([115, 105, 116, 101, 115] @ 47 # d)"
    using splitn_hit [of "47::nat" "[]" 4] by (simp del: splitn.simps)
  have b: "splitn 3 [47] ([115, 105, 116, 101, 115] @ 47 # d)
           = [115, 105, 116, 101, 115] # splitn 2 [47::nat] d"
    using splitn_hit [of "47::nat" "[115, 105, 116, 101, 115]" 3]
    by (simp del: splitn.simps)
  from a b show ?thesis by (simp del: splitn.simps)
qed


lemma id_strategy_site_only:
  assumes "47 \<notin> set name"
  shows "id_strategy (u ''/sites/'' @ name) = None"
proof -
  have c: "splitn 2 [47] name = [name]" by (rule splitn_miss [OF assms])
  have p: "splitn 4 (u ''/'') (u ''/sites/'' @ name) = [[], [115, 105, 116, 101, 115], name]"
    unfolding u_sites u_slash using splitn_sites_prefix [of name] c by (simp del: splitn.simps)
  show ?thesis
    unfolding id_strategy_def Let_def p by simp
qed


lemma split_scheme_subset: "split_scheme url = (sch, rest) \<Longrightarrow> set rest \<subseteq> set url"
  unfolding split_scheme_def
  by (auto split: option.splits if_splits dest!: split_first_Some)

lemma clean_url_subset: "set (clean_url url) \<subseteq> set url"
  unfolding clean_url_def using set_dropWhileD by fastforce

lemma splitnetloc_subset: "set (fst (splitnetloc url)) \<subseteq> set url"
  unfolding splitnetloc_def by (auto dest!: set_takeWhileD in_set_dropD)

lemma netloc_ok_clean:
  assumes "91 \<notin> set n" "93 \<notin> set n" "list_all (\<lambda>c. c < 128) n"
  shows "netloc_ok L n"
  using assms unfolding netloc_ok_def by simp

lemma urlsplit_netloc_ok:
  assumes "\<And>n. set n \<subseteq> set url \<Longrightarrow> netloc_ok L n"
  shows "\<exists>p. urlsplit L url = Inr p"
proof -
  obtain sch url1 where s: "split_scheme (clean_url url) = (sch, url1)"
    by (cases "split_scheme (clean_url url)")
  have sub1: "set url1 \<subseteq> set url"
    using split_scheme_subset [OF s] clean_url_subset [of url] by blast
  obtain nl url2 where
    n: "(if take 2 url1 = [47, 47] then splitnetloc url1 else ([], url1)) = (nl, url2)"
    by (cases "if take 2 url1 = [47, 47] then splitnetloc url1 else ([], url1)")
  have "nl = (if take 2 url1 = [47, 47] then fst (splitnetloc url1) else [])"
    using n by (auto split: if_splits)
  then have "set nl \<subseteq> set url"
    using sub1 splitnetloc_subset [of url1] by (auto split: if_splits)
  then have ok: "netloc_ok L nl" by (rule assms)
  show ?thesis
    unfolding urlsplit_def Let_def s prod.case n using ok
    by (simp split: prod.splits option.splits)
qed

lemma urlparse_clean:
  assumes "91 \<notin> set url" "93 \<notin> set url" "list_all (\<lambda>c. c < 128) url"
  shows "\<exists>p. urlparse L url = Inr p"
proof -
  have "netloc_ok L n" if "set n \<subseteq> set url" for n
  proof (rule netloc_ok_clean)
    show "91 \<notin> set n" "93 \<notin> set n" using that assms(1,2) by auto
    show "list_all (\<lambda>c. c < 128) n" using that assms(3) by (auto simp: list_all_iff)
  qed
  then obtain p where "urlsplit L url = Inr p" using urlsplit_netloc_ok by blast
  then show ?thesis unfolding urlparse_def by simp
qed

lemma parse_url_Inl: "(parse_url L url = Inl e) = (urlparse L url = Inl e)"
  unfolding parse_url_def Let_def
  by (auto split: sum.splits option.splits prod.splits)

lemma parse_url_Inr:
  assumes "urlparse L url = Inr p"
  shows "parse_url L url =
     Inr (case id_decoded url of
            None \<Rightarrow> (netloc p, path_strategy (unquote (path p)))
          | Some d \<Rightarrow> (case id_strategy d of
               None \<Rightarrow> (netloc p, path_strategy (unquote (path p)))
             | Some r \<Rightarrow> (netloc p, r)))"
  using assms unfolding parse_url_def Let_def
  by (auto split: option.splits prod.splits)

lemma id_strategy_not_sites: "\<not> startswith (u ''/sites/'') d \<Longrightarrow> id_strategy d = None"
  unfolding id_strategy_def by simp




text \<open>
  Claim C10 (as amended). \<open>_parse_url\<close> raises exactly when \<open>urlparse\<close> raises;
  it returns a triple for every ASCII string without square brackets; and when the
  decoded \<open>id\<close> value does not start with \<open>/sites/\<close> the result is the one of the
  path-segment strategy.
\<close>

theorem parse_url_raises_only_with_urlparse:
  "(parse_url L url = Inl e) = (urlparse L url = Inl e)
   \<and> (91 \<notin> set url \<and> 93 \<notin> set url \<and> list_all (\<lambda>c. c < 128) url
        \<longrightarrow> (\<exists>h s i. parse_url L url = Inr (h, s, i)))
   \<and> (urlparse L url = Inr p \<and> id_decoded url = Some d \<and> \<not> startswith (u ''/sites/'') d
        \<longrightarrow> parse_url L url = Inr (netloc p, path_strategy (unquote (path p))))"
proof (intro conjI impI)
  show "(parse_url L url = Inl e) = (urlparse L url = Inl e)" by (rule parse_url_Inl)
next
  assume "91 \<notin> set url \<and> 93 \<notin> set url \<and> list_all (\<lambda>c. c < 128) url"
  then obtain p where "urlparse L url = Inr p" using urlparse_clean by blast
  from parse_url_Inr [OF this] show "\<exists>h s i. parse_url L url = Inr (h, s, i)"
    by (metis prod_cases3)
next
  assume h: "urlparse L url = Inr p \<and> id_decoded url = Some d \<and> \<not> startswith (u ''/sites/'') d"
  then have "id_strategy d = None" by (simp add: id_strategy_not_sites)
  with h show "parse_url L url = Inr (netloc p, path_strategy (unquote (path p)))"
    by (simp add: parse_url_Inr)
qed

text \<open>
  C10 as stated fails: the function is not total. \<open>urlparse\<close> raises \<open>ValueError\<close>
  on a network location with an unpaired bracket, and \<open>_parse_url\<close> does not catch it.
\<close>

theorem parse_url_unbalanced_bracket_counterexample:
  "parse_url lenient (u ''https://['') = Inl ValueError"
  by code_simp


text \<open>C10 at a concrete link whose \<open>id\<close> value is no site path.\<close>

theorem parse_url_raises_only_with_urlparse_witness:
  "(91 \<notin> set (u ''https://h.example/sites/S/Docs/x.docx?id=%2Fteams%2FX'')
      \<and> 93 \<notin> set (u ''https://h.example/sites/S/Docs/x.docx?id=%2Fteams%2FX'')
      \<and> list_all (\<lambda>c. c < 128) (u ''https://h.example/sites/S/Docs/x.docx?id=%2Fteams%2FX''))
   \<and> (\<exists>h s i. parse_url lenient (u ''https://h.example/sites/S/Docs/x.docx?id=%2Fteams%2FX'')
          = Inr (h, s, i))
   \<and> urlparse lenient (u ''https://h.example/sites/S/Docs/x.docx?id=%2Fteams%2FX'')
     = Inr \<lparr>scheme = u ''https'', netloc = u ''h.example'', path = u ''/sites/S/Docs/x.docx'',
            params = [], query = u ''id=%2Fteams%2FX'', fragment = []\<rparr>
   \<and> id_decoded (u ''https://h.example/sites/S/Docs/x.docx?id=%2Fteams%2FX'') = Some (u ''/teams/X'')
   \<and> \<not> startswith (u ''/sites/'') (u ''/teams/X'')
   \<and> parse_url lenient (u ''https://h.example/sites/S/Docs/x.docx?id=%2Fteams%2FX'')
     = Inr (u ''h.example'', u ''/sites/S'', u ''/Docs/x.docx'')"
proof -
  let ?url = "u ''https://h.example/sites/S/Docs/x.docx?id=%2Fteams%2FX''"
  let ?p = "\<lparr>scheme = u ''https'', netloc = u ''h.example'', path = u ''/sites/S/Docs/x.docx'',
            params = [], query = u ''id=%2Fteams%2FX'', fragment = []\<rparr>"
  have a: "91 \<notin> set ?url \<and> 93 \<notin> set ?url \<and> list_all (\<lambda>c. c < 128) ?url" by code_simp
  have b: "urlparse lenient ?url = Inr ?p" by code_simp
  have c: "id_decoded ?url = Some (u ''/teams/X'')" by code_simp
  have d: "\<not> startswith (u ''/sites/'') (u ''/teams/X'')" by code_simp
  have e: "(netloc ?p, path_strategy (unquote (path ?p)))
             = (u ''h.example'', u ''/sites/S'', u ''/Docs/x.docx'')" by code_simp
  note t = parse_url_raises_only_with_urlparse [of lenient ?url ValueError ?p "u ''/teams/X''"]
  from t a have 1: "\<exists>h s i. parse_url lenient ?url = Inr (h, s, i)" by blast
  from t b c d have "parse_url lenient ?url = Inr (netloc ?p, path_strategy (unquote (path ?p)))"
    by blast
  with e have 2: "parse_url lenient ?url = Inr (u ''h.example'', u ''/sites/S'', u ''/Docs/x.docx'')"
    by simp
  from a 1 b c d 2 show ?thesis by blast
qed

subsection \<open>The archive builder\<close>

lemma and_then_Ok [simp]: "and_then (Ok x, s) f = f x s"
  by (simp add: and_then_def)

lemma and_then_Exit [simp]: "and_then (Exit n, s) f = (Exit n, s)"
  by (simp add: and_then_def)

lemma and_then_Raise [simp]: "and_then (Raise e, s) f = (Raise e, s)"
  by (simp add: and_then_def)

text \<open>
  With no tracked file \<open>build_skill\<close> prints its warning, returns the path of the
  archive and writes nothing.
\<close>

lemma build_skill_no_tracked:
  assumes "ls_files g (''skills/'' @ skill_name @ ''/'') w = (Ok [], w1)"
  shows "build_skill g repo_dir skill_name output_dir w =
           (Ok (output_dir @ [skill_name @ ''.zip'']),
            say (''  Warning: no tracked files found for skill '' @ [CHR 0x27] @ skill_name
                 @ [CHR 0x27] @ '', skipping'') w1)"
  using assms by (simp add: build_skill_def Let_def)

lemma ls_files_keeps_files: "ls_files g p w = (r, w1) \<Longrightarrow> files w1 = files w"
  by (auto simp: ls_files_def complain_def split: option.splits)


subsection \<open>The document converter\<close>

lemma calls_say [simp]: "calls (say m w) = calls w"
  by (simp add: say_def)

lemma calls_tell [simp]: "calls (tell cfg force m w) = calls w"
  by (simp add: tell_def)

lemma calls_store [simp]: "calls (store p c w) = calls w"
  by (simp add: store_def)

lemma calls_unlink [simp]: "calls (unlink p w) = calls w"
  by (simp add: unlink_def)

lemma calls_used [simp]: "calls (used t w) = calls w @ [t]"
  by (simp add: used_def)

lemma files_say [simp]: "files (say m w) = files w"
  by (simp add: say_def)

lemma files_tell [simp]: "files (tell cfg force m w) = files w"
  by (simp add: tell_def)

lemma exists_file_tell [simp]: "exists_file (tell cfg force m w) p = exists_file w p"
  by (simp add: exists_file_def)

lemma convert_with_pandoc_calls:
  "convert_with_pandoc T cfg doc out_file w = (r, w')
   \<Longrightarrow> calls w' = calls w @ (if pandoc_available T then [Pandoc] else [])"
  by (auto simp: convert_with_pandoc_def split: if_splits sum.splits)

lemma convert_pdf_calls:
  "convert_pdf T cfg f doc out_file w = (r, w')
   \<Longrightarrow> calls w' = calls w @ (if pandoc_available T then [Pandoc] else [])
       \<or> (\<not> pandoc_available T \<and> calls w' = calls w @ [Pdftotext])"
  by (auto simp: convert_pdf_def with_suffix_def dest!: convert_with_pandoc_calls
      split: if_splits sum.splits)

lemma convert_excel_calls:
  "convert_excel T cfg f doc out_file w = (r, w')
   \<Longrightarrow> calls w' = calls w @ (if has_openpyxl T then [Openpyxl] else [])"
  by (auto simp: convert_excel_def split: if_splits sum.splits)

lemma convert_powerpoint_calls:
  "convert_powerpoint T cfg f doc out_file w = (r, w')
   \<Longrightarrow> calls w' = calls w @ (if pandoc_available T then [Pandoc] else [])
       \<or> (\<not> pandoc_available T \<and> calls w' = calls w @ [PythonPptx])"
  by (auto simp: convert_powerpoint_def dest!: convert_with_pandoc_calls
      split: if_splits sum.splits)


text \<open>Which converters a call of \<open>convert_file\<close> runs, by extension.\<close>

lemma convert_file_calls:
  assumes "convert_file T cfg f outp w = (r, w')"
  shows "\<exists>cs. calls w' = calls w @ cs
          \<and> (if lower (suffix (basename f)) \<in> {''.xlsx'', ''.xls''} then set cs \<subseteq> {Openpyxl}
             else if pandoc_available T then set cs \<subseteq> {Pandoc}
             else set cs \<subseteq> {Pdftotext, PythonPptx})"
proof (cases "files w f")
  case None
  with assms show ?thesis by (auto simp: convert_file_def)
next
  case (Some doc)
  let ?ext = "lower (suffix (basename f))"
  show ?thesis
  proof (cases "supported ?ext")
    case False
    with assms Some show ?thesis by (auto simp: convert_file_def Let_def)
  next
    case True
    show ?thesis
    proof (cases "target f outp")
      case (Ok t)
      show ?thesis
      proof (cases "exists_file w t \<and> \<not> overwrite cfg")
        case True
        with assms Some \<open>supported ?ext\<close> Ok show ?thesis
          by (auto simp: convert_file_def Let_def)
      next
        case False
        let ?w2 = "tell cfg False (''Converting: '' @ basename f @ '' -> '' @ basename t) w"
        have c: "calls ?w2 = calls w" by simp
        consider (pandoc) "?ext \<in> set [''.docx'', ''.doc'', ''.odt'', ''.rtf'', ''.html'', ''.htm'']"
          | (pdf) "?ext = ''.pdf''" | (excel) "?ext \<in> set [''.xlsx'', ''.xls'']"
          | (ppt) "?ext \<in> set [''.pptx'', ''.ppt'']"
          using \<open>supported ?ext\<close> unfolding supported_def SUPPORTED_FORMATS_def by auto
        then show ?thesis
        proof cases
          case pandoc
          with assms Some \<open>supported ?ext\<close> Ok False
          have "convert_with_pandoc T cfg doc t ?w2 = (r, w')"
            by (auto simp: convert_file_def Let_def)
          from convert_with_pandoc_calls [OF this] c pandoc show ?thesis by auto
        next
          case pdf
          with assms Some \<open>supported ?ext\<close> Ok False
          have "convert_pdf T cfg f doc t ?w2 = (r, w')"
            by (auto simp: convert_file_def Let_def)
          from convert_pdf_calls [OF this] c pdf show ?thesis by auto
        next
          case excel
          then have ne: "?ext \<notin> set [''.docx'', ''.doc'', ''.odt'', ''.rtf'', ''.html'', ''.htm'']"
            "?ext \<noteq> ''.pdf''" by auto
          with assms Some \<open>supported ?ext\<close> Ok False excel
          have "convert_excel T cfg f doc t ?w2 = (r, w')"
            by (auto simp: convert_file_def Let_def)
          from convert_excel_calls [OF this] c excel show ?thesis by auto
        next
          case ppt
          then have ne: "?ext \<notin> set [''.docx'', ''.doc'', ''.odt'', ''.rtf'', ''.html'', ''.htm'']"
            "?ext \<noteq> ''.pdf''" "?ext \<notin> set [''.xlsx'', ''.xls'']" by auto
          with assms Some \<open>supported ?ext\<close> Ok False ppt
          have "convert_powerpoint T cfg f doc t ?w2 = (r, w')"
            by (auto simp: convert_file_def Let_def)
          from convert_powerpoint_calls [OF this] c ppt show ?thesis by auto
        qed
      qed
    next
      case (Exit n)
      with assms Some True show ?thesis by (auto simp: convert_file_def Let_def)
    next
      case (Raise e)
      with assms Some True show ?thesis by (auto simp: convert_file_def Let_def)
    qed
  qed
qed

text \<open>The skip branch, and the branch that runs a converter when \<open>pandoc\<close> is there.\<close>

lemma convert_file_skip:
  assumes "files w f = Some doc" "supported (lower (suffix (basename f)))"
    "target f outp = Ok t" "exists_file w t" "\<not> overwrite cfg"
  shows "convert_file T cfg f outp w
           = (Ok True, tell cfg False (''Skipping (already exists): '' @ basename t) w)"
  using assms by (simp add: convert_file_def Let_def)

lemma convert_file_pandoc_first:
  assumes "files w f = Some doc" "supported (lower (suffix (basename f)))"
    "lower (suffix (basename f)) \<notin> {''.xlsx'', ''.xls''}" "pandoc_available T"
    "target f outp = Ok t" "exists_file w t \<longrightarrow> overwrite cfg"
  shows "calls (snd (convert_file T cfg f outp w)) = calls w @ [Pandoc]"
proof -
  let ?ext = "lower (suffix (basename f))"
  let ?w2 = "tell cfg False (''Converting: '' @ basename f @ '' -> '' @ basename t) w"
  have c: "calls ?w2 = calls w" by simp
  have p: "calls (snd (convert_with_pandoc T cfg doc t ?w2)) = calls w @ [Pandoc]"
    using convert_with_pandoc_calls [of T cfg doc t ?w2] assms(4) c
    by (cases "convert_with_pandoc T cfg doc t ?w2") auto
  consider (pandoc) "?ext \<in> set [''.docx'', ''.doc'', ''.odt'', ''.rtf'', ''.html'', ''.htm'']"
    | (pdf) "?ext = ''.pdf''" | (ppt) "?ext \<in> set [''.pptx'', ''.ppt'']"
    using assms(2,3) unfolding supported_def SUPPORTED_FORMATS_def by auto
  then show ?thesis
  proof cases
    case pandoc
    with assms have "convert_file T cfg f outp w = convert_with_pandoc T cfg doc t ?w2"
      by (auto simp: convert_file_def Let_def)
    with p show ?thesis by simp
  next
    case pdf
    with assms have "convert_file T cfg f outp w = convert_pdf T cfg f doc t ?w2"
      by (auto simp: convert_file_def Let_def)
    moreover have "convert_pdf T cfg f doc t ?w2
        = convert_with_pandoc T cfg doc t (tell cfg False ''   Using pandoc for PDF conversion...'' ?w2)"
      using assms(4) by (simp add: convert_pdf_def)
    moreover have "calls (snd (convert_with_pandoc T cfg doc t
         (tell cfg False ''   Using pandoc for PDF conversion...'' ?w2))) = calls w @ [Pandoc]"
      using convert_with_pandoc_calls [of T cfg doc t
          "tell cfg False ''   Using pandoc for PDF conversion...'' ?w2"] assms(4)
      by (cases "convert_with_pandoc T cfg doc t
          (tell cfg False ''   Using pandoc for PDF conversion...'' ?w2)") auto
    ultimately show ?thesis by simp
  next
    case ppt
    then have ne: "?ext \<notin> set [''.docx'', ''.doc'', ''.odt'', ''.rtf'', ''.html'', ''.htm'']"
      "?ext \<noteq> ''.pdf''" "?ext \<notin> set [''.xlsx'', ''.xls'']" by auto
    with assms ppt have "convert_file T cfg f outp w = convert_powerpoint T cfg f doc t ?w2"
      by (auto simp: convert_file_def Let_def)
    moreover have "convert_powerpoint T cfg f doc t ?w2 = convert_with_pandoc T cfg doc t ?w2"
      using assms(4) by (simp add: convert_powerpoint_def)
    ultimately show ?thesis using p by simp
  qed
qed

text \<open>
  Claim C3 (as amended). The converters that a call of \<open>convert_file\<close> runs are
  appended to the record of the world. A spreadsheet (\<open>.xlsx\<close>, \<open>.xls\<close>) is only ever
  read with \<open>openpyxl\<close>, whether \<open>pandoc\<close> is available or not. For every other
  format: with \<open>pandoc\<close> available nothing but \<open>pandoc\<close> is run, and a conversion that
  is not refused or skipped runs it exactly once; \<open>pdftotext\<close> and \<open>python-pptx\<close> are
  run only when \<open>pandoc\<close> is unavailable.
\<close>

theorem pandoc_first_except_spreadsheets:
  assumes "convert_file T cfg f outp w = (r, w')"
  shows "\<exists>cs. calls w' = calls w @ cs
     \<and> (lower (suffix (basename f)) \<in> {''.xlsx'', ''.xls''} \<longrightarrow> set cs \<subseteq> {Openpyxl})
     \<and> (lower (suffix (basename f)) \<notin> {''.xlsx'', ''.xls''} \<and> pandoc_available T
          \<longrightarrow> set cs \<subseteq> {Pandoc})
     \<and> (Pdftotext \<in> set cs \<or> PythonPptx \<in> set cs \<longrightarrow> \<not> pandoc_available T)
     \<and> (files w f \<noteq> None \<and> supported (lower (suffix (basename f)))
          \<and> lower (suffix (basename f)) \<notin> {''.xlsx'', ''.xls''} \<and> pandoc_available T
          \<and> target f outp = Ok t \<and> (exists_file w t \<longrightarrow> overwrite cfg)
          \<longrightarrow> cs = [Pandoc])"
proof -
  from convert_file_calls [OF assms] obtain cs where
    cs: "calls w' = calls w @ cs"
    and k: "if lower (suffix (basename f)) \<in> {''.xlsx'', ''.xls''} then set cs \<subseteq> {Openpyxl}
            else if pandoc_available T then set cs \<subseteq> {Pandoc}
            else set cs \<subseteq> {Pdftotext, PythonPptx}"
    by blast
  have 1: "lower (suffix (basename f)) \<in> {''.xlsx'', ''.xls''} \<longrightarrow> set cs \<subseteq> {Openpyxl}"
    using k by (simp split: if_splits)
  have 2: "lower (suffix (basename f)) \<notin> {''.xlsx'', ''.xls''} \<and> pandoc_available T
          \<longrightarrow> set cs \<subseteq> {Pandoc}"
    using k by (simp split: if_splits)
  have 3: "Pdftotext \<in> set cs \<or> PythonPptx \<in> set cs \<longrightarrow> \<not> pandoc_available T"
    using k by (auto split: if_splits)
  have 4: "files w f \<noteq> None \<and> supported (lower (suffix (basename f)))
          \<and> lower (suffix (basename f)) \<notin> {''.xlsx'', ''.xls''} \<and> pandoc_available T
          \<and> target f outp = Ok t \<and> (exists_file w t \<longrightarrow> overwrite cfg)
          \<longrightarrow> cs = [Pandoc]"
  proof
    assume h: "files w f \<noteq> None \<and> supported (lower (suffix (basename f)))
          \<and> lower (suffix (basename f)) \<notin> {''.xlsx'', ''.xls''} \<and> pandoc_available T
          \<and> target f outp = Ok t \<and> (exists_file w t \<longrightarrow> overwrite cfg)"
    then obtain doc where "files w f = Some doc" by auto
    with h have "calls (snd (convert_file T cfg f outp w)) = calls w @ [Pandoc]"
      by (intro convert_file_pandoc_first) auto
    with assms cs show "cs = [Pandoc]" by simp
  qed
  from cs 1 2 3 4 show ?thesis by blast
qed

text \<open>
  C3 as stated fails: with \<open>pandoc\<close> available the conversion of the supported file
  \<open>book.xlsx\<close> succeeds and has run \<open>openpyxl\<close>, not \<open>pandoc\<close>.
\<close>

theorem spreadsheet_bypasses_pandoc_counterexample:
  "pandoc_available office_tools
   \<and> supported (lower (suffix (basename [''book.xlsx''])))
   \<and> fst (convert_file office_tools plain_config [''book.xlsx''] None book_world) = Ok True
   \<and> calls (snd (convert_file office_tools plain_config [''book.xlsx''] None book_world))
       = [Openpyxl]"
  by code_simp

text \<open>
  Claim C4, at the failing input. A data row of two zeros has cells that are not empty,
  yet no data row is written for it: the Markdown of the sheet ends after the separator
  line of the header.
\<close>

theorem zero_row_is_dropped:
  "list_ex (\<lambda>c. c \<noteq> CNone) [CInt 0, CInt 0]
   \<and> data_rows [[CInt 0, CInt 0]] = []
   \<and> load_workbook office_tools (Binary 0) = Inr [(''S'', [[CStr ''a'', CStr ''b''], [CInt 0, CInt 0]])]
   \<and> files (snd (convert_file office_tools plain_config [''book.xlsx''] None book_world))
        [''book.md'']
      = Some (Text (''# book'' @ nl @ nl @ ''*Converted from Excel*'' @ nl @ nl @ ''---'' @ nl @ nl
                    @ ''## S'' @ nl @ nl @ ''| a | b |'' @ nl @ ''| --- | --- |'' @ nl @ nl))"
  by code_simp

text \<open>C3 at \<open>report.pdf\<close> and at \<open>book.xlsx\<close>, on a machine with every converter.\<close>

theorem pandoc_first_except_spreadsheets_witness:
  "(files report_world [''report.pdf''] \<noteq> None
    \<and> supported (lower (suffix (basename [''report.pdf''])))
    \<and> lower (suffix (basename [''report.pdf''])) \<notin> {''.xlsx'', ''.xls''}
    \<and> pandoc_available office_tools
    \<and> target [''report.pdf''] None = Ok [''report.md'']
    \<and> \<not> exists_file report_world [''report.md'']
    \<and> calls (snd (convert_file office_tools plain_config [''report.pdf''] None report_world))
        = [Pandoc])
   \<and> (lower (suffix (basename [''book.xlsx''])) \<in> {''.xlsx'', ''.xls''}
    \<and> set (calls (snd (convert_file office_tools plain_config [''book.xlsx''] None book_world)))
        \<subseteq> {Openpyxl})"
proof -
  obtain r w' where e: "convert_file office_tools plain_config [''report.pdf''] None report_world
                         = (r, w')"
    by fastforce
  have h: "files report_world [''report.pdf''] \<noteq> None
    \<and> supported (lower (suffix (basename [''report.pdf''])))
    \<and> lower (suffix (basename [''report.pdf''])) \<notin> {''.xlsx'', ''.xls''}
    \<and> pandoc_available office_tools
    \<and> target [''report.pdf''] None = Ok [''report.md'']
    \<and> \<not> exists_file report_world [''report.md'']"
    by code_simp
  have c0: "calls report_world = []" by (simp add: report_world_def)
  from pandoc_first_except_spreadsheets [OF e, of "[''report.md'']"] obtain cs where
    "calls w' = calls report_world @ cs"
    and "files report_world [''report.pdf''] \<noteq> None
          \<and> supported (lower (suffix (basename [''report.pdf''])))
          \<and> lower (suffix (basename [''report.pdf''])) \<notin> {''.xlsx'', ''.xls''}
          \<and> pandoc_available office_tools
          \<and> target [''report.pdf''] None = Ok [''report.md'']
          \<and> (exists_file report_world [''report.md''] \<longrightarrow> overwrite plain_config)
          \<longrightarrow> cs = [Pandoc]"
    by blast
  with h c0 have "calls w' = [Pandoc]" by simp
  with e have 1: "calls (snd (convert_file office_tools plain_config [''report.pdf''] None
                     report_world)) = [Pandoc]"
    by simp
  obtain r2 w2 where e2: "convert_file office_tools plain_config [''book.xlsx''] None book_world
                         = (r2, w2)"
    by fastforce
  have x: "lower (suffix (basename [''book.xlsx''])) \<in> {''.xlsx'', ''.xls''}" by code_simp
  have c1: "calls book_world = []" by (simp add: book_world_def)
  from pandoc_first_except_spreadsheets [OF e2] obtain cs2 where
    "calls w2 = calls book_world @ cs2"
    and "lower (suffix (basename [''book.xlsx''])) \<in> {''.xlsx'', ''.xls''}
          \<longrightarrow> set cs2 \<subseteq> {Openpyxl}"
    by blast
  with x c1 have "set (calls w2) \<subseteq> {Openpyxl}" by simp
  with e2 have 2: "set (calls (snd (convert_file office_tools plain_config [''book.xlsx''] None
                     book_world))) \<subseteq> {Openpyxl}"
    by simp
  from h 1 x 2 show ?thesis by blast
qed

text \<open>
  Claim C9. Let the input file exist with a supported extension, and let the \<open>.md\<close>
  output file exist already. With the overwrite flag off, \<open>convert_file\<close> returns
  \<open>True\<close> and only prints that it skips the file; in single-file mode the process
  exits with status 0, no file changed and no converter run; in folder mode the step
  of the loop adds one to the success count and leaves the failure count as it is.
\<close>

theorem skipped_file_counts_as_success:
  assumes "files w f = Some doc" and "supported (lower (suffix (basename f)))"
    and "target f outp = Ok t" and "exists_file w t"
  shows "(\<not> overwrite cfg \<longrightarrow>
            convert_file T cfg f outp w
              = (Ok True, tell cfg False (''Skipping (already exists): '' @ basename t) w))
       \<and> (\<not> supported_formats args \<and> arg_file args = Some f \<and> arg_output args = outp
            \<and> \<not> arg_overwrite args \<longrightarrow>
            fst (convert_main T args w) = Exit 0
            \<and> files (snd (convert_main T args w)) = files w
            \<and> calls (snd (convert_main T args w)) = calls w)
       \<and> (\<not> overwrite cfg \<and> folder_target input_folder output_folder rec f = Ok target_file
            \<and> outp = Some target_file \<longrightarrow>
            convert_each T cfg input_folder output_folder rec (f # rest) (successes, failures) w
              = convert_each T cfg input_folder output_folder rec rest
                  (successes + 1, failures)
                  (tell cfg False (''Skipping (already exists): '' @ basename t) w))"
proof (intro conjI impI)
  assume "\<not> overwrite cfg"
  with assms show "convert_file T cfg f outp w
              = (Ok True, tell cfg False (''Skipping (already exists): '' @ basename t) w)"
    by (rule convert_file_skip)
next
  assume a: "\<not> supported_formats args \<and> arg_file args = Some f \<and> arg_output args = outp
            \<and> \<not> arg_overwrite args"
  let ?cfg = "\<lparr>keep_original = \<not> delete_original args, overwrite = arg_overwrite args,
               extract_images = arg_extract_images args, verbose = \<not> quiet args\<rparr>"
  have "convert_file T ?cfg f outp w
          = (Ok True, tell ?cfg False (''Skipping (already exists): '' @ basename t) w)"
    using assms a by (intro convert_file_skip) simp_all
  with a have m: "convert_main T args w
          = (Exit 0, tell ?cfg False (''Skipping (already exists): '' @ basename t) w)"
    by (simp add: convert_main_def Let_def)
  show "fst (convert_main T args w) = Exit 0" using m by simp
  show "files (snd (convert_main T args w)) = files w" using m by simp
  show "calls (snd (convert_main T args w)) = calls w" using m by simp
next
  assume a: "\<not> overwrite cfg \<and> folder_target input_folder output_folder rec f = Ok target_file
            \<and> outp = Some target_file"
  with assms have "convert_file T cfg f (Some target_file) w
          = (Ok True, tell cfg False (''Skipping (already exists): '' @ basename t) w)"
    by (intro convert_file_skip) simp_all
  with a show "convert_each T cfg input_folder output_folder rec (f # rest) (successes, failures) w
              = convert_each T cfg input_folder output_folder rec rest
                  (successes + 1, failures)
                  (tell cfg False (''Skipping (already exists): '' @ basename t) w)"
    by simp
qed

text \<open>C9 for \<open>report.pdf\<close> beside an existing \<open>report.md\<close>.\<close>

theorem skipped_file_counts_as_success_witness:
  "files converted_world [''report.pdf''] = Some (Binary 1)
   \<and> supported (lower (suffix (basename [''report.pdf''])))
   \<and> target [''report.pdf''] (Some [''report.md'']) = Ok [''report.md'']
   \<and> exists_file converted_world [''report.md'']
   \<and> \<not> overwrite plain_config
   \<and> fst (convert_file office_tools plain_config [''report.pdf''] (Some [''report.md''])
             converted_world) = Ok True
   \<and> fst (convert_main office_tools report_args converted_world) = Exit 0
   \<and> fst (convert_each office_tools plain_config [] [] False [[''report.pdf'']] (0, 0)
             converted_world) = Ok (1, 0)"
proof -
  have h1: "files converted_world [''report.pdf''] = Some (Binary 1)" by code_simp
  have h2: "supported (lower (suffix (basename [''report.pdf''])))" by code_simp
  have h3: "target [''report.pdf''] (Some [''report.md'']) = Ok [''report.md'']" by code_simp
  have h4: "exists_file converted_world [''report.md'']" by code_simp
  have h5: "\<not> overwrite plain_config" by code_simp
  have h6: "\<not> supported_formats report_args \<and> arg_file report_args = Some [''report.pdf'']
            \<and> arg_output report_args = Some [''report.md''] \<and> \<not> arg_overwrite report_args"
    by code_simp
  have h7: "folder_target [] [] False [''report.pdf''] = Ok [''report.md'']" by code_simp
  note t = skipped_file_counts_as_success [OF h1 h2 h3 h4, of plain_config office_tools
      report_args "[]" "[]" False "[''report.md'']" "[]" 0 0]
  from t h5 have a: "fst (convert_file office_tools plain_config [''report.pdf'']
      (Some [''report.md'']) converted_world) = Ok True"
    by simp
  from t h6 have b: "fst (convert_main office_tools report_args converted_world) = Exit 0"
    by blast
  from t h5 h7 have "convert_each office_tools plain_config [] [] False [[''report.pdf'']] (0, 0)
      converted_world
      = convert_each office_tools plain_config [] [] False [] (0 + 1, 0)
          (tell plain_config False (''Skipping (already exists): '' @ basename [''report.md''])
             converted_world)"
    by blast
  then have c: "fst (convert_each office_tools plain_config [] [] False [[''report.pdf'']] (0, 0)
      converted_world) = Ok (1, 0)"
    by simp
  from h1 h2 h3 h4 h5 a b c show ?thesis by blast
qed

subsection \<open>The setup wizard\<close>

lemma files_complain [simp]: "files (complain m w) = files w"
  by (simp add: complain_def)

lemma input_files: "input prompt w = (r, w1) \<Longrightarrow> files w1 = files w"
  by (auto simp: input_def say_def split: list.splits)

lemma ask_files: "ask prompt w = (r, w1) \<Longrightarrow> files w1 = files w"
  by (auto simp: ask_def input_def say_def and_then_def split: list.splits)

lemma arg_or_ask_files: "arg_or_ask a prompt w = (r, w1) \<Longrightarrow> files w1 = files w"
  by (auto simp: arg_or_ask_def dest: ask_files split: option.splits)

text \<open>The numbered prompts: what \<open>pick\<close> accepts.\<close>

lemma pick_in_range:
  "py_int choice = Some k \<Longrightarrow> 1 \<le> k \<Longrightarrow> k \<le> int (length items)
   \<Longrightarrow> pick items choice = Some (items ! nat (k - 1))"
  by (simp add: pick_def py_index_def Let_def)

lemma pick_rejects:
  "pick items choice = None
   \<longleftrightarrow> (case py_int choice of
          None \<Rightarrow> True
        | Some k \<Rightarrow> k > int (length items) \<or> k \<le> - int (length items))"
  by (auto simp: pick_def py_index_def Let_def split: option.splits)

text \<open>
  Claim C5, at the failing input. Three workspaces and two pipelines are listed and the
  user answers \<open>0\<close> to both numbered prompts, a choice outside \<open>1-3\<close> and \<open>1-2\<close>.
  \<open>int('0') - 1\<close> is the index \<open>-1\<close>, which Python reads as the last element: no
  exception is raised, the wizard goes on with the last workspace and the last pipeline,
  writes the config file and the permissions file, and ends with status 0.
\<close>

theorem zero_choice_selects_last:
  "py_int ''0'' = Some 0
   \<and> pick three_workspaces ''0'' = Some \<lparr>node_id = ''ws-c'', node_name = ''Gamma''\<rparr>
   \<and> fst (wizard_script demo_services [''home''] [''proj''] zenhub_args
             (typed [''team'', ''0'', ''0''])) = 0
   \<and> files (snd (wizard_script demo_services [''home''] [''proj''] zenhub_args
                   (typed [''team'', ''0'', ''0''])))
        (config_path [''proj''])
      = Some (Json (JObj
          [(''board_type'', JStr ''zenhub''), (''workspace_id'', JStr ''ws-c''),
           (''repository_id'', JStr ''R_1''), (''organization_id'', JStr ''org-1''),
           (''default_pipeline_id'', JStr ''p-2''), (''default_pipeline_name'', JStr ''Done''),
           (''default_labels'', JArr [JStr ''bug''])]))
   \<and> files (snd (wizard_script demo_services [''home''] [''proj''] zenhub_args
                   (typed [''team'', ''0'', ''0''])))
        (settings_path [''home''])
      = Some (Json (JObj [(''permissions'', JObj [(''allow'', JArr [JStr ''mcp__zenhub__*''])])]))"
  by code_simp

text \<open>An answer that is not \<open>y\<close> after \<open>strip().lower()\<close> ends the run at once.\<close>

lemma check_existing_declined:
  assumes "exists_file w (config_path project_dir)" "\<not> arg_force args"
    "stdin w = answer # rest" "lower (strip answer) \<noteq> ''y''"
  shows "check_existing project_dir args w
           = (Exit 0, say ''Setup cancelled''
                        ((say ''Overwrite existing config? (y/N): '' w)\<lparr>stdin := rest\<rparr>))"
  using assms by (simp add: check_existing_def input_def)

text \<open>
  Claim C6 (as amended). When the config file exists, the wizard runs without
  \<open>--force\<close>, and the answer to the overwrite prompt is, after removing surrounding
  whitespace and lowering the case, anything other than \<open>y\<close>, the wizard exits with
  status 0 and no file of the world has changed.
\<close>

theorem declined_overwrite_keeps_config:
  assumes "exists_file w (config_path project_dir)" and "\<not> arg_force args"
    and "stdin w = answer # rest" and "lower (strip answer) \<noteq> ''y''"
  shows "fst (wizard_script S home project_dir args w) = 0
       \<and> files (snd (wizard_script S home project_dir args w)) = files w"
  using check_existing_declined [OF assms]
  by (simp add: wizard_script_def wizard_main_def say_def)

text \<open>C6 for the answer \<open>n\<close>.\<close>

theorem declined_overwrite_keeps_config_witness:
  "exists_file (configured ''n'') (config_path [''proj''])
   \<and> \<not> arg_force jira_args
   \<and> stdin (configured ''n'') = [''n'']
   \<and> lower (strip ''n'') \<noteq> ''y''
   \<and> fst (wizard_script demo_services [''home''] [''proj''] jira_args (configured ''n'')) = 0
   \<and> files (snd (wizard_script demo_services [''home''] [''proj''] jira_args (configured ''n'')))
       = files (configured ''n'')"
proof -
  have h1: "exists_file (configured ''n'') (config_path [''proj''])" by code_simp
  have h2: "\<not> arg_force jira_args" by code_simp
  have h3: "stdin (configured ''n'') = ''n'' # []" by code_simp
  have h4: "lower (strip ''n'') \<noteq> ''y''" by code_simp
  from declined_overwrite_keeps_config [OF h1 h2 h3 h4, of demo_services "[''home'']"] h1 h2 h3 h4
  show ?thesis by simp
qed

text \<open>
  C6 as stated fails: the answer \<open>Y\<close> is other than \<open>y\<close>, yet the wizard takes it for
  consent, goes on and replaces the config file.
\<close>

theorem capital_y_overwrites_counterexample:
  "''Y'' \<noteq> ''y''
   \<and> files (configured ''Y'') (config_path [''proj''])
       = Some (Json (JObj [(''board_type'', JStr ''zenhub'')]))
   \<and> \<not> arg_force jira_args
   \<and> fst (wizard_script demo_services [''home''] [''proj''] jira_args (configured ''Y'')) = 0
   \<and> files (snd (wizard_script demo_services [''home''] [''proj''] jira_args (configured ''Y'')))
        (config_path [''proj''])
      = Some (Json (JObj
          [(''board_type'', JStr ''jira''), (''jira_url'', JStr ''https://j.example''),
           (''project_key'', JStr ''AB''), (''default_labels'', JArr [])]))"
  by code_simp

end
